theory Spec2Isabelle
  imports Main
begin

section \<open>Lazy method resolution trampoline (oat/runtime/support_stubs.cc)\<close>

text \<open>
  A shallow embedding of \<^verbatim>\<open>UnresolvedDirectMethodTrampolineFromCode\<close>, in both of its
  build variants. Pointers and machine words are natural numbers, \<open>0\<close> being \<^verbatim>\<open>NULL\<close>: the
  routine only copies and compares them. The indices \<^verbatim>\<open>cur_arg\<close>, \<^verbatim>\<open>args_in_regs\<close> and
  \<^verbatim>\<open>shorty_index\<close> are \<^verbatim>\<open>size_t\<close> values bounded by twice the length of a shorty plus
  twelve, so they are natural numbers as well. The stack is addressed in words from
  \<^verbatim>\<open>sp\<close> (\<^verbatim>\<open>kPointerSize\<close> bytes each).
\<close>

subsection \<open>Data model\<close>

type_synonym ptr = nat

abbreviation (input) NULL :: ptr where "NULL \<equiv> 0"

definition kPointerSize :: nat where
  "kPointerSize = 4"

text \<open>Every way the process can die inside the routine.\<close>

datatype abort = DCheckFailure | CheckFailure | LogFatal | UnimplementedFatal | Segfault

datatype arch = Arm | I386 | OtherArch

text \<open>
  The preprocessor symbols the file is compiled under: \<^verbatim>\<open>__arm__\<close> / \<^verbatim>\<open>__i386__\<close>,
  \<^verbatim>\<open>ART_USE_LLVM_COMPILER\<close>, and \<^verbatim>\<open>NDEBUG\<close>, under which the \<^verbatim>\<open>DCHECK\<close> family of
  macros expands to nothing while \<^verbatim>\<open>CHECK\<close> and \<^verbatim>\<open>LOG(FATAL)\<close> stay. The address of the
  assembler helper \<^verbatim>\<open>art_deliver_exception_from_code\<close> is fixed at link time.
\<close>

record build =
  target :: arch
  ART_USE_LLVM_COMPILER :: bool
  NDEBUG :: bool
  art_deliver_exception_from_code :: ptr

datatype TrampolineType = kDirectMethod | kStaticMethod | kUnknownMethod

datatype InvokeType = kStatic | kDirect | kVirtual | kSuper

text \<open>
  \<^verbatim>\<open>Instruction::Code\<close>: the eight opcodes the routine names, and every other opcode.
\<close>

datatype Code =
    INVOKE_VIRTUAL | INVOKE_SUPER | INVOKE_DIRECT | INVOKE_STATIC
  | INVOKE_VIRTUAL_RANGE | INVOKE_SUPER_RANGE | INVOKE_DIRECT_RANGE | INVOKE_STATIC_RANGE
  | OTHER_CODE nat

text \<open>
  An instruction as the routine reads it: \<^verbatim>\<open>instr->Opcode()\<close> and the \<^verbatim>\<open>vB\<close> field of
  its \<^verbatim>\<open>DecodedInstruction\<close>. A code item gives the instruction starting at each code
  unit (\<^verbatim>\<open>Instruction::At(&code->insns_[dex_pc])\<close>).
\<close>

record Instruction =
  Opcode :: Code
  vB :: nat

record CodeItem =
  insns_size_in_code_units :: nat
  insns :: "nat \<Rightarrow> Instruction"

datatype ClassInitState = Uninitialized | Initializing | Initialized | Erroneous

text \<open>
  Modelled from the spec: the status predicates of \<^verbatim>\<open>Class\<close> are declared in object.h,
  which is not part of the sources at hand. \<^verbatim>\<open>IsInitializing\<close> is "at least
  initializing", as the comment above the assertion on it in the routine says.
\<close>

definition IsInitialized :: "ClassInitState \<Rightarrow> bool" where
  "IsInitialized st = (st = Initialized)"

definition IsInitializing :: "ClassInitState \<Rightarrow> bool" where
  "IsInitializing st = (st = Initializing \<or> st = Initialized)"

definition IsErroneous :: "ClassInitState \<Rightarrow> bool" where
  "IsErroneous st = (st = Erroneous)"

record AbstractMethod =
  IsRuntimeMethod :: bool
  GetDexMethodIndex :: nat
  GetDeclaringClass :: ptr
  GetCode :: ptr
  GetShorty :: string
  GetCodeItem :: CodeItem
  ToDexPc :: "ptr \<Rightarrow> nat"
  CheckIncompatibleClassChange :: "InvokeType \<Rightarrow> bool"

text \<open>
  What \<^verbatim>\<open>Runtime::Current()\<close> answers: the frame size of the \<^verbatim>\<open>kRefsAndArgs\<close>
  callee-save method, that method, and the resolution stub of each trampoline type.
\<close>

record Runtime =
  GetFrameSizeInBytes :: nat
  GetCalleeSaveMethod :: ptr
  GetResolutionStubArray :: "TrampolineType \<Rightarrow> ptr"

text \<open>
  The calling thread and the managed heap: the pending exception (\<^verbatim>\<open>NULL\<close> when none),
  what \<^verbatim>\<open>thread->GetCurrentMethod(&dex_pc)\<close> answers, the methods and the classes.
\<close>

record world =
  GetException :: ptr
  GetCurrentMethod :: "ptr \<times> nat"
  methods :: "ptr \<Rightarrow> AbstractMethod option"
  classes :: "ptr \<Rightarrow> ClassInitState option"

text \<open>The class linker, an external collaborator: its four entry points are parameters.\<close>

record ClassLinker =
  MethodShorty :: "nat \<Rightarrow> ptr \<Rightarrow> world \<Rightarrow> string"
  ResolveMethod :: "nat \<Rightarrow> ptr \<Rightarrow> InvokeType \<Rightarrow> world \<Rightarrow> ptr \<times> world"
  EnsureInitialized :: "ptr \<Rightarrow> world \<Rightarrow> world"
  GetOatCodeFor :: "ptr \<Rightarrow> world \<Rightarrow> ptr"

datatype linker_call =
    MethodShortyCall nat ptr
  | ResolveMethodCall nat ptr InvokeType
  | EnsureInitializedCall ptr
  | GetOatCodeForCall ptr

text \<open>
  The state the routine runs on: the words of the stack from \<^verbatim>\<open>sp\<close> upwards (the
  call state), the thread and heap, the JNI local reference table of the thread's
  environment with its segment cookie, and the calls made on the class linker so far.
\<close>

record state =
  stack :: "nat \<Rightarrow> ptr"
  thread :: world
  locals :: "ptr list"
  local_ref_cookie :: nat
  linker_calls :: "linker_call list"

subsection \<open>Aborts, assertions, dereferences\<close>

definition and_then :: "abort + 'a \<Rightarrow> ('a \<Rightarrow> abort + 'b) \<Rightarrow> abort + 'b" where
  "and_then m f = (case m of Inl e \<Rightarrow> Inl e | Inr x \<Rightarrow> f x)"

definition CHECK :: "bool \<Rightarrow> abort + unit" where
  "CHECK c = (if c then Inr () else Inl CheckFailure)"

text \<open>
  The assertion macros come from logging.h, which is not part of the sources at hand. A
  failed \<^verbatim>\<open>CHECK\<close> is fatal in every build. Whether the \<^verbatim>\<open>DCHECK\<close> family is compiled in
  is the parameter \<^verbatim>\<open>NDEBUG\<close> of the build: under it a \<^verbatim>\<open>DCHECK\<close> does not even evaluate
  its condition.
\<close>

definition DCHECK :: "build \<Rightarrow> abort + bool \<Rightarrow> abort + unit" where
  "DCHECK cfg c =
     (if NDEBUG cfg then Inr ()
      else and_then c (\<lambda>b. if b then Inr () else Inl DCheckFailure))"

text \<open>
  Dereferencing a pointer that is neither a method nor a class of the heap (\<^verbatim>\<open>NULL\<close>
  among them) ends the process.
\<close>

definition method_at :: "world \<Rightarrow> ptr \<Rightarrow> abort + AbstractMethod" where
  "method_at w p = (case methods w p of None \<Rightarrow> Inl Segfault | Some m \<Rightarrow> Inr m)"

definition class_at :: "world \<Rightarrow> ptr \<Rightarrow> abort + ClassInitState" where
  "class_at w p = (case classes w p of None \<Rightarrow> Inl Segfault | Some st \<Rightarrow> Inr st)"

subsection \<open>The reference-scoping walk (lines 141 to 186)\<close>

text \<open>
  Modelled from the spec: \<^verbatim>\<open>soa.AddLocalReference<jobject>(obj)\<close> is defined in
  scoped_thread_state_change.h, which is not part of the sources at hand. It registers
  one scoped reference for the object word it is given.
\<close>

definition AddLocalReference :: "ptr \<Rightarrow> ptr list \<Rightarrow> ptr list" where
  "AddLocalReference obj ls = ls @ [obj]"

text \<open>\<^verbatim>\<open>(c == 'J' || c == 'D' ? 2 : 1)\<close>\<close>

definition arg_words :: "char \<Rightarrow> nat" where
  "arg_words c = (if c = CHR ''J'' \<or> c = CHR ''D'' then 2 else 1)"

text \<open>
  The first loop, over \<^verbatim>\<open>shorty[1..]\<close>: the characters still to come are the second
  argument, \<^verbatim>\<open>args_in_regs\<close> the first.
\<close>

fun discover_args_in_regs :: "nat \<Rightarrow> string \<Rightarrow> nat" where
  "discover_args_in_regs args_in_regs [] = args_in_regs"
| "discover_args_in_regs args_in_regs (c # cs) =
     (if args_in_regs + arg_words c > 3 then 3
      else discover_args_in_regs (args_in_regs + arg_words c) cs)"

text \<open>
  The loop over the register arguments. It returns \<^verbatim>\<open>cur_arg\<close>, the characters of the
  shorty from \<^verbatim>\<open>shorty_index\<close> on, and the local references.
\<close>

fun register_args :: "(nat \<Rightarrow> ptr) \<Rightarrow> nat \<Rightarrow> nat \<Rightarrow> string \<Rightarrow> ptr list \<Rightarrow> nat \<times> string \<times> ptr list" where
  "register_args regs args_in_regs cur_arg [] ls = (cur_arg, [], ls)"
| "register_args regs args_in_regs cur_arg (c # cs) ls =
     (if cur_arg - 1 < args_in_regs
      then register_args regs args_in_regs (cur_arg + arg_words c) cs
             (if c = CHR ''L'' then AddLocalReference (regs cur_arg) ls else ls)
      else (cur_arg, c # cs, ls))"

text \<open>The loop over the stack arguments.\<close>

fun stack_args :: "(nat \<Rightarrow> ptr) \<Rightarrow> nat \<Rightarrow> string \<Rightarrow> ptr list \<Rightarrow> ptr list" where
  "stack_args regs cur_arg [] ls = ls"
| "stack_args regs cur_arg (c # cs) ls =
     stack_args regs (cur_arg + arg_words c) cs
       (if c = CHR ''L'' then AddLocalReference (regs cur_arg) ls else ls)"

text \<open>
  The whole step: \<^verbatim>\<open>regs\<close> is the view \<^verbatim>\<open>regs[i]\<close> of the stack, \<^verbatim>\<open>shorty_len\<close> is the
  length of the shorty, whose first character is the return type.
\<close>

definition scope_references :: "(nat \<Rightarrow> ptr) \<Rightarrow> InvokeType \<Rightarrow> string \<Rightarrow> ptr list \<Rightarrow> ptr list" where
  "scope_references regs invoke_type shorty ls =
     (let args_in_regs = discover_args_in_regs 0 (drop 1 shorty);
          cur_arg = 1;
          (cur_arg, args_in_regs, ls) =
            (if invoke_type \<noteq> kStatic
             then (cur_arg + 1,
                   if args_in_regs < 3 then args_in_regs + 1 else args_in_regs,
                   AddLocalReference (regs cur_arg) ls)
             else (cur_arg, args_in_regs, ls));
          (cur_arg, rest, ls) = register_args regs args_in_regs cur_arg (drop 1 shorty) ls
      in stack_args regs (cur_arg + 11) rest ls)"

subsection \<open>Where the calling convention puts each argument word\<close>

text \<open>
  The layout drawn at the head of the routine for ARM: argument word \<open>k\<close> (from 1) is in
  register \<open>Rk\<close>, that is \<^verbatim>\<open>regs[k]\<close>, for \<open>k \<le> 3\<close>; beyond the three argument
  registers it is in the caller's frame, which starts at \<^verbatim>\<open>regs[11]\<close> with the caller's
  method, followed by one slot for each argument word.
\<close>

definition argument_slot :: "nat \<Rightarrow> nat" where
  "argument_slot k = (if k \<le> 3 then k else k + 11)"

text \<open>The argument words that hold object parameters, for a descriptor starting at word \<open>k\<close>.\<close>

fun object_words :: "nat \<Rightarrow> string \<Rightarrow> nat list" where
  "object_words k [] = []"
| "object_words k (c # cs) =
     (if c = CHR ''L'' then [k] else []) @ object_words (k + arg_words c) cs"

fun total_words :: "string \<Rightarrow> nat" where
  "total_words [] = 0"
| "total_words (c # cs) = arg_words c + total_words cs"

definition object_parameters :: "string \<Rightarrow> nat" where
  "object_parameters shorty = length (filter (\<lambda>c. c = CHR ''L'') (drop 1 shorty))"

subsection \<open>Calling-convention decode (lines 38 to 82)\<close>

text \<open>
  The result is the word index of \<^verbatim>\<open>caller_sp\<close>, the word index of \<^verbatim>\<open>regs\<close> and the
  value of \<^verbatim>\<open>caller_pc\<close>. Byte offsets from \<^verbatim>\<open>sp\<close> are divided by \<^verbatim>\<open>kPointerSize\<close>.
\<close>

definition frame_layout :: "build \<Rightarrow> Runtime \<Rightarrow> (nat \<Rightarrow> ptr) \<Rightarrow> abort + (nat \<times> nat \<times> ptr)" where
  "frame_layout cfg rt stk =
     (case target cfg of
        Arm \<Rightarrow>
          and_then (DCHECK cfg (Inr (48 = GetFrameSizeInBytes rt)))
            (\<lambda>_. Inr (48 div kPointerSize, kPointerSize div kPointerSize,
                       stk (kPointerSize div kPointerSize + 10)))
      | I386 \<Rightarrow>
          and_then (DCHECK cfg (Inr (32 = GetFrameSizeInBytes rt)))
            (\<lambda>_. Inr (32 div kPointerSize, 0, stk (0 + 7)))
      | OtherArch \<Rightarrow> Inl UnimplementedFatal)"

text \<open>
  Modelled from the spec: \<^verbatim>\<open>FinishCalleeSaveFrameSetup\<close> is defined in
  callee_save_frame.h, which is not part of the sources at hand. It establishes the
  frame descriptor on top of the call state: the callee-save method is stored at
  \<^verbatim>\<open>*sp\<close>. It has no failure path.
\<close>

definition FinishCalleeSaveFrameSetup :: "Runtime \<Rightarrow> state \<Rightarrow> state" where
  "FinishCalleeSaveFrameSetup rt s = s\<lparr>stack := (stack s)(0 := GetCalleeSaveMethod rt)\<rparr>"

text \<open>
  Modelled from the spec: \<^verbatim>\<open>ScopedJniEnvLocalRefState\<close> is defined in jni_internal.h,
  which is not part of the sources at hand. It is the scoped-acquisition guard of the
  local references: entering the scope opens a new segment of the local reference table
  and keeps the previous cookie; leaving the scope, on any return, drains the segment
  and puts the previous cookie back.
\<close>

definition ScopedJniEnvLocalRefState_enter :: "state \<Rightarrow> nat \<times> state" where
  "ScopedJniEnvLocalRefState_enter s =
     (local_ref_cookie s, s\<lparr>local_ref_cookie := length (locals s)\<rparr>)"

definition ScopedJniEnvLocalRefState_leave :: "nat \<Rightarrow> state \<Rightarrow> state" where
  "ScopedJniEnvLocalRefState_leave saved_local_ref_cookie s =
     s\<lparr>locals := take (local_ref_cookie s) (locals s),
       local_ref_cookie := saved_local_ref_cookie\<rparr>"

subsection \<open>Invocation classifier (lines 98 to 140, and 239 to 272)\<close>

text \<open>The \<^verbatim>\<open>switch (instr_code)\<close>; its default case is \<^verbatim>\<open>LOG(FATAL)\<close>.\<close>

fun switch_instr_code :: "Code \<Rightarrow> abort + InvokeType" where
  "switch_instr_code INVOKE_DIRECT = Inr kDirect"
| "switch_instr_code INVOKE_DIRECT_RANGE = Inr kDirect"
| "switch_instr_code INVOKE_STATIC = Inr kStatic"
| "switch_instr_code INVOKE_STATIC_RANGE = Inr kStatic"
| "switch_instr_code INVOKE_SUPER = Inr kSuper"
| "switch_instr_code INVOKE_SUPER_RANGE = Inr kSuper"
| "switch_instr_code INVOKE_VIRTUAL = Inr kVirtual"
| "switch_instr_code INVOKE_VIRTUAL_RANGE = Inr kVirtual"
| "switch_instr_code (OTHER_CODE n) = Inl LogFatal"

text \<open>
  The result is \<^verbatim>\<open>invoke_type\<close> and \<^verbatim>\<open>dex_method_idx\<close>. The two variants of the routine
  differ in where \<^verbatim>\<open>dex_pc\<close> comes from: \<^verbatim>\<open>caller->ToDexPc(caller_pc)\<close> in one,
  \<^verbatim>\<open>thread->GetCurrentMethod(&dex_pc)\<close> in the other; it is the last argument here.
\<close>

definition classify ::
  "build \<Rightarrow> world \<Rightarrow> TrampolineType \<Rightarrow> ptr \<Rightarrow> ptr \<Rightarrow> (AbstractMethod \<Rightarrow> nat) \<Rightarrow> abort + (InvokeType \<times> nat)" where
  "classify cfg w type called caller dex_pc_of =
     (if type = kUnknownMethod then
        and_then (DCHECK cfg (and_then (method_at w called) (\<lambda>m. Inr (IsRuntimeMethod m)))) (\<lambda>_.
        and_then (method_at w caller) (\<lambda>cm.
        and_then (CHECK (dex_pc_of cm < insns_size_in_code_units (GetCodeItem cm))) (\<lambda>_.
        and_then (switch_instr_code (Opcode (insns (GetCodeItem cm) (dex_pc_of cm)))) (\<lambda>invoke_type.
        Inr (invoke_type, vB (insns (GetCodeItem cm) (dex_pc_of cm)))))))
      else
        and_then (DCHECK cfg (and_then (method_at w called) (\<lambda>m. Inr (\<not> IsRuntimeMethod m)))) (\<lambda>_.
        and_then (method_at w called) (\<lambda>m.
        Inr (if type = kStaticMethod then kStatic else kDirect, GetDexMethodIndex m))))"

text \<open>The shorty of the callee (lines 129 and 136 to 138), not compiled on x86.\<close>

definition discover_shorty ::
  "ClassLinker \<Rightarrow> TrampolineType \<Rightarrow> ptr \<Rightarrow> ptr \<Rightarrow> nat \<Rightarrow> state \<Rightarrow> abort + (string \<times> state)" where
  "discover_shorty linker type called caller dex_method_idx s =
     (if type = kUnknownMethod then
        Inr (MethodShorty linker dex_method_idx caller (thread s),
             s\<lparr>linker_calls := linker_calls s @ [MethodShortyCall dex_method_idx caller]\<rparr>)
      else and_then (method_at (thread s) called) (\<lambda>m. Inr (GetShorty m, s)))"

text \<open>The reference scoper as a step of the routine: \<^verbatim>\<open>#if !defined(__i386__)\<close>.\<close>

definition scope_step ::
  "build \<Rightarrow> ClassLinker \<Rightarrow> TrampolineType \<Rightarrow> ptr \<Rightarrow> ptr \<Rightarrow> InvokeType \<Rightarrow> nat \<Rightarrow> nat \<Rightarrow> state \<Rightarrow> abort + state" where
  "scope_step cfg linker type called caller invoke_type dex_method_idx regs s =
     (if target cfg = I386 then Inr s
      else and_then (discover_shorty linker type called caller dex_method_idx s) (\<lambda>(shorty, s).
           Inr (s\<lparr>locals := scope_references (\<lambda>i. stack s (regs + i)) invoke_type shorty (locals s)\<rparr>)))"

subsection \<open>Method resolver (lines 187 to 190)\<close>

definition resolve_step ::
  "ClassLinker \<Rightarrow> TrampolineType \<Rightarrow> nat \<Rightarrow> ptr \<Rightarrow> InvokeType \<Rightarrow> ptr \<Rightarrow> state \<Rightarrow> ptr \<times> state" where
  "resolve_step linker type dex_method_idx caller invoke_type called s =
     (if type = kUnknownMethod then
        (case ResolveMethod linker dex_method_idx caller invoke_type (thread s) of
           (called, w) \<Rightarrow>
             (called, s\<lparr>thread := w,
                        linker_calls := linker_calls s @ [ResolveMethodCall dex_method_idx caller invoke_type]\<rparr>))
      else (called, s))"

subsection \<open>Class-init gate (lines 191 to 212, and 276 to 309)\<close>

definition oat_code :: "ClassLinker \<Rightarrow> ptr \<Rightarrow> state \<Rightarrow> ptr \<times> state" where
  "oat_code linker called s =
     (GetOatCodeFor linker called (thread s),
      s\<lparr>linker_calls := linker_calls s @ [GetOatCodeForCall called]\<rparr>)"

text \<open>
  \<^verbatim>\<open>code = called->GetCode()\<close>, followed in the LLVM variant by the lazy-link fallback
  \<^verbatim>\<open>if (code == NULL) code = linker->GetOatCodeFor(called)\<close>.
\<close>

definition method_code :: "build \<Rightarrow> ClassLinker \<Rightarrow> ptr \<Rightarrow> state \<Rightarrow> abort + (ptr \<times> state)" where
  "method_code cfg linker called s =
     and_then (method_at (thread s) called) (\<lambda>m.
       if ART_USE_LLVM_COMPILER cfg \<and> GetCode m = NULL then Inr (oat_code linker called s)
       else Inr (GetCode m, s))"

text \<open>The result is \<^verbatim>\<open>code\<close>, which is \<^verbatim>\<open>NULL\<close> when the gate chose no entry point.\<close>

definition class_init_gate ::
  "build \<Rightarrow> ClassLinker \<Rightarrow> InvokeType \<Rightarrow> ptr \<Rightarrow> state \<Rightarrow> abort + (ptr \<times> state)" where
  "class_init_gate cfg linker invoke_type called s =
     (if GetException (thread s) = NULL then
        and_then (method_at (thread s) called) (\<lambda>m.
        and_then (CHECK (\<not> CheckIncompatibleClassChange m invoke_type)) (\<lambda>_.
        let called_class = GetDeclaringClass m;
            s = s\<lparr>thread := EnsureInitialized linker called_class (thread s),
                  linker_calls := linker_calls s @ [EnsureInitializedCall called_class]\<rparr>
        in and_then (class_at (thread s) called_class) (\<lambda>st.
           if IsInitialized st then method_code cfg linker called s
           else if IsInitializing st then
             (if invoke_type = kStatic then Inr (oat_code linker called s)
              else method_code cfg linker called s)
           else and_then (DCHECK cfg (Inr (IsErroneous st))) (\<lambda>_. Inr (NULL, s)))))
      else Inr (NULL, s))"

subsection \<open>Outcome dispatcher (lines 213 to 227, and 310 to 318)\<close>

text \<open>The two assertions on a resolved entry point (lines 220 to 223).\<close>

definition expect_resolved :: "build \<Rightarrow> Runtime \<Rightarrow> ptr \<Rightarrow> ptr \<Rightarrow> state \<Rightarrow> abort + unit" where
  "expect_resolved cfg rt called code s =
     and_then
       (DCHECK cfg
          (and_then (method_at (thread s) called) (\<lambda>m.
           and_then (class_at (thread s) (GetDeclaringClass m)) (\<lambda>st.
           Inr (IsInitializing st)))))
       (\<lambda>_. DCHECK cfg (Inr (code \<noteq> GetResolutionStubArray rt kUnknownMethod)))"

definition dispatch :: "build \<Rightarrow> Runtime \<Rightarrow> nat \<Rightarrow> ptr \<Rightarrow> ptr \<Rightarrow> state \<Rightarrow> abort + (ptr \<times> state)" where
  "dispatch cfg rt regs called code s =
     (if code = NULL then
        Inr (art_deliver_exception_from_code cfg,
             s\<lparr>stack := (stack s)(regs + 0 := GetException (thread s)),
               thread := (thread s)\<lparr>GetException := NULL\<rparr>\<rparr>)
      else
        and_then (expect_resolved cfg rt called code s) (\<lambda>_.
        Inr (code, s\<lparr>stack := (stack s)(regs + 0 := called)\<rparr>)))"

text \<open>In the LLVM variant \<^verbatim>\<open>called_addr\<close> points at stack word 0.\<close>

definition dispatch_llvm :: "build \<Rightarrow> Runtime \<Rightarrow> ptr \<Rightarrow> ptr \<Rightarrow> state \<Rightarrow> abort + (ptr \<times> state)" where
  "dispatch_llvm cfg rt called code s =
     (if code \<noteq> NULL then
        and_then (expect_resolved cfg rt called code s) (\<lambda>_.
        Inr (code, s\<lparr>stack := (stack s)(0 := called)\<rparr>))
      else Inr (code, s))"

subsection \<open>The routine\<close>

text \<open>
  Lines 38 to 190 of the first variant: everything before the class-init gate. The result
  is \<^verbatim>\<open>called\<close>, \<^verbatim>\<open>invoke_type\<close>, the word index of \<^verbatim>\<open>regs\<close>, the cookie kept by
  \<^verbatim>\<open>env_state\<close> and the state.
\<close>

definition before_gate ::
  "build \<Rightarrow> Runtime \<Rightarrow> ClassLinker \<Rightarrow> ptr \<Rightarrow> state \<Rightarrow> TrampolineType
     \<Rightarrow> abort + (ptr \<times> InvokeType \<times> nat \<times> nat \<times> state)" where
  "before_gate cfg rt linker called s type =
     and_then (frame_layout cfg rt (stack s)) (\<lambda>(caller_sp, regs, caller_pc).
     case ScopedJniEnvLocalRefState_enter (FinishCalleeSaveFrameSetup rt s) of
       (saved_local_ref_cookie, s) \<Rightarrow>
     let caller = stack s caller_sp in
     and_then (classify cfg (thread s) type called caller (\<lambda>cm. ToDexPc cm caller_pc))
       (\<lambda>(invoke_type, dex_method_idx).
     and_then (scope_step cfg linker type called caller invoke_type dex_method_idx regs s) (\<lambda>s.
     case resolve_step linker type dex_method_idx caller invoke_type called s of
       (called, s) \<Rightarrow> Inr (called, invoke_type, regs, saved_local_ref_cookie, s))))"

text \<open>
  The body up to \<^verbatim>\<open>return code\<close>, before the scope of \<^verbatim>\<open>env_state\<close> is left: the entry
  point, the cookie kept by \<^verbatim>\<open>env_state\<close> and the state.
\<close>

definition trampoline_body ::
  "build \<Rightarrow> Runtime \<Rightarrow> ClassLinker \<Rightarrow> ptr \<Rightarrow> state \<Rightarrow> TrampolineType \<Rightarrow> abort + (ptr \<times> nat \<times> state)" where
  "trampoline_body cfg rt linker called s type =
     and_then (before_gate cfg rt linker called s type)
       (\<lambda>(called, invoke_type, regs, saved_local_ref_cookie, s).
     and_then (class_init_gate cfg linker invoke_type called s) (\<lambda>(code, s).
     and_then (dispatch cfg rt regs called code s) (\<lambda>(code, s).
     Inr (code, saved_local_ref_cookie, s))))"

text \<open>The first variant (\<^verbatim>\<open>!defined(ART_USE_LLVM_COMPILER)\<close>), lines 35 to 228.\<close>

definition UnresolvedDirectMethodTrampolineFromCode_oat ::
  "build \<Rightarrow> Runtime \<Rightarrow> ClassLinker \<Rightarrow> ptr \<Rightarrow> state \<Rightarrow> TrampolineType \<Rightarrow> abort + (ptr \<times> state)" where
  "UnresolvedDirectMethodTrampolineFromCode_oat cfg rt linker called s type =
     and_then (trampoline_body cfg rt linker called s type) (\<lambda>(code, saved_local_ref_cookie, s).
     Inr (code, ScopedJniEnvLocalRefState_leave saved_local_ref_cookie s))"

text \<open>The LLVM variant, lines 230 to 319.\<close>

definition before_gate_llvm ::
  "build \<Rightarrow> ClassLinker \<Rightarrow> ptr \<Rightarrow> state \<Rightarrow> TrampolineType \<Rightarrow> abort + (ptr \<times> InvokeType \<times> state)" where
  "before_gate_llvm cfg linker called s type =
     (case GetCurrentMethod (thread s) of (caller, dex_pc) \<Rightarrow>
     and_then (classify cfg (thread s) type called caller (\<lambda>cm. dex_pc))
       (\<lambda>(invoke_type, dex_method_idx).
     case resolve_step linker type dex_method_idx caller invoke_type called s of
       (called, s) \<Rightarrow> Inr (called, invoke_type, s)))"

definition UnresolvedDirectMethodTrampolineFromCode_llvm ::
  "build \<Rightarrow> Runtime \<Rightarrow> ClassLinker \<Rightarrow> ptr \<Rightarrow> state \<Rightarrow> TrampolineType \<Rightarrow> abort + (ptr \<times> state)" where
  "UnresolvedDirectMethodTrampolineFromCode_llvm cfg rt linker called s type =
     and_then (before_gate_llvm cfg linker called s type) (\<lambda>(called, invoke_type, s).
     and_then (class_init_gate cfg linker invoke_type called s) (\<lambda>(code, s).
     dispatch_llvm cfg rt called code s))"

text \<open>The routine as built: the preprocessor keeps one of the two variants.\<close>

definition UnresolvedDirectMethodTrampolineFromCode ::
  "build \<Rightarrow> Runtime \<Rightarrow> ClassLinker \<Rightarrow> ptr \<Rightarrow> state \<Rightarrow> TrampolineType \<Rightarrow> abort + (ptr \<times> state)" where
  "UnresolvedDirectMethodTrampolineFromCode cfg rt linker called s type =
     (if ART_USE_LLVM_COMPILER cfg
      then UnresolvedDirectMethodTrampolineFromCode_llvm cfg rt linker called s type
      else UnresolvedDirectMethodTrampolineFromCode_oat cfg rt linker called s type)"

subsection \<open>What a finished call is observed by\<close>

definition returned_code :: "abort + (ptr \<times> state) \<Rightarrow> ptr option" where
  "returned_code r = (case r of Inl a \<Rightarrow> None | Inr (code, s) \<Rightarrow> Some code)"

definition returned_state :: "abort + (ptr \<times> state) \<Rightarrow> state option" where
  "returned_state r = (case r of Inl a \<Rightarrow> None | Inr (code, s) \<Rightarrow> Some s)"

definition resolutions :: "linker_call list \<Rightarrow> nat" where
  "resolutions cs = length (filter (\<lambda>c. case c of ResolveMethodCall i m k \<Rightarrow> True | _ \<Rightarrow> False) cs)"

definition shorty_lookups :: "linker_call list \<Rightarrow> nat" where
  "shorty_lookups cs = length (filter (\<lambda>c. case c of MethodShortyCall i m \<Rightarrow> True | _ \<Rightarrow> False) cs)"

text \<open>
  What the caller of the first variant sees of a finished call: the entry point, the
  thread and heap, and the result slot \<^verbatim>\<open>regs[0]\<close>, whose word index is the first
  argument.
\<close>

definition observe :: "nat \<Rightarrow> abort + (ptr \<times> state) \<Rightarrow> abort + (ptr \<times> world \<times> ptr)" where
  "observe regs r = (case r of Inl a \<Rightarrow> Inl a | Inr (code, s) \<Rightarrow> Inr (code, thread s, stack s regs))"

text \<open>
  The call-site instruction: the instruction of the caller at the \<^verbatim>\<open>dex_pc\<close> the routine
  computes (lines 100 to 103, and 234 to 243), when the caller can be read.
\<close>

definition call_site_instruction :: "build \<Rightarrow> Runtime \<Rightarrow> state \<Rightarrow> Instruction option" where
  "call_site_instruction cfg rt s =
     (if ART_USE_LLVM_COMPILER cfg then
        (case GetCurrentMethod (thread s) of (caller, dex_pc) \<Rightarrow>
           (case methods (thread s) caller of
              None \<Rightarrow> None
            | Some cm \<Rightarrow> Some (insns (GetCodeItem cm) dex_pc)))
      else
        (case frame_layout cfg rt (stack s) of
           Inl a \<Rightarrow> None
         | Inr (caller_sp, regs, caller_pc) \<Rightarrow>
             (case methods (thread s) (((stack s)(0 := GetCalleeSaveMethod rt)) caller_sp) of
                None \<Rightarrow> None
              | Some cm \<Rightarrow> Some (insns (GetCodeItem cm) (ToDexPc cm caller_pc)))))"

text \<open>
  Whether the two checks that come before the \<^verbatim>\<open>switch\<close> pass at the call site: the
  assertion that \<^verbatim>\<open>called\<close> is a runtime method (line 99, compiled out under
  \<^verbatim>\<open>NDEBUG\<close>) and \<^verbatim>\<open>CHECK_LT(dex_pc, code->insns_size_in_code_units_)\<close> (line 102).
\<close>

definition call_site_checked :: "build \<Rightarrow> Runtime \<Rightarrow> ptr \<Rightarrow> state \<Rightarrow> bool" where
  "call_site_checked cfg rt called s =
     ((NDEBUG cfg \<or> (case methods (thread s) called of None \<Rightarrow> False | Some m \<Rightarrow> IsRuntimeMethod m)) \<and>
      (if ART_USE_LLVM_COMPILER cfg then
         (case GetCurrentMethod (thread s) of (caller, dex_pc) \<Rightarrow>
            (case methods (thread s) caller of
               None \<Rightarrow> False
             | Some cm \<Rightarrow> dex_pc < insns_size_in_code_units (GetCodeItem cm)))
       else
         (case frame_layout cfg rt (stack s) of
            Inl a \<Rightarrow> False
          | Inr (caller_sp, regs, caller_pc) \<Rightarrow>
              (case methods (thread s) (((stack s)(0 := GetCalleeSaveMethod rt)) caller_sp) of
                 None \<Rightarrow> False
               | Some cm \<Rightarrow> ToDexPc cm caller_pc < insns_size_in_code_units (GetCodeItem cm)))))"

text \<open>
  The invoke kind the routine as built goes on with once the method is resolved, when it
  gets that far.
\<close>

definition decoded_invoke_type ::
  "build \<Rightarrow> Runtime \<Rightarrow> ClassLinker \<Rightarrow> ptr \<Rightarrow> state \<Rightarrow> TrampolineType \<Rightarrow> InvokeType option" where
  "decoded_invoke_type cfg rt linker called s type =
     (if ART_USE_LLVM_COMPILER cfg then
        (case before_gate_llvm cfg linker called s type of
           Inl a \<Rightarrow> None
         | Inr (called', invoke_type, s1) \<Rightarrow> Some invoke_type)
      else
        (case before_gate cfg rt linker called s type of
           Inl a \<Rightarrow> None
         | Inr (called', invoke_type, regs, saved, s1) \<Rightarrow> Some invoke_type))"

text \<open>
  The scoped references the invocation has open when it reaches \<^verbatim>\<open>return code\<close>, before
  any scope is left, in the order of their registration. The LLVM variant has no scope
  to leave.
\<close>

definition scoped_at_return ::
  "build \<Rightarrow> Runtime \<Rightarrow> ClassLinker \<Rightarrow> ptr \<Rightarrow> state \<Rightarrow> TrampolineType \<Rightarrow> ptr list option" where
  "scoped_at_return cfg rt linker called s type =
     (if ART_USE_LLVM_COMPILER cfg then
        (case UnresolvedDirectMethodTrampolineFromCode_llvm cfg rt linker called s type of
           Inl a \<Rightarrow> None
         | Inr (code, s') \<Rightarrow> Some (drop (length (locals s)) (locals s')))
      else
        (case trampoline_body cfg rt linker called s type of
           Inl a \<Rightarrow> None
         | Inr (code, saved, sb) \<Rightarrow> Some (drop (length (locals s)) (locals sb))))"

subsection \<open>A concrete runtime to run the routine on\<close>

text \<open>
  One class (at address 200) declaring one method (at 100, method index 5, shorty
  \<^verbatim>\<open>VLJL\<close>); a caller (at 50) whose code item holds one kind of instruction; the
  runtime's resolution method (at 102). The assembler helper is at 4096, the three
  resolution stubs at 8192, 8200 and 8208.
\<close>

definition ex_build :: "arch \<Rightarrow> bool \<Rightarrow> bool \<Rightarrow> build" where
  "ex_build a llvm ndebug =
     \<lparr>target = a, ART_USE_LLVM_COMPILER = llvm, NDEBUG = ndebug,
      art_deliver_exception_from_code = 4096\<rparr>"

definition ex_stubs :: "TrampolineType \<Rightarrow> ptr" where
  "ex_stubs t = (case t of kDirectMethod \<Rightarrow> 8192 | kStaticMethod \<Rightarrow> 8200 | kUnknownMethod \<Rightarrow> 8208)"

definition ex_runtime :: "nat \<Rightarrow> Runtime" where
  "ex_runtime frame_size =
     \<lparr>GetFrameSizeInBytes = frame_size, GetCalleeSaveMethod = 60,
      GetResolutionStubArray = ex_stubs\<rparr>"

definition ex_callee :: "ptr \<Rightarrow> AbstractMethod" where
  "ex_callee code =
     \<lparr>IsRuntimeMethod = False, GetDexMethodIndex = 5, GetDeclaringClass = 200, GetCode = code,
      GetShorty = ''VLJL'',
      GetCodeItem = \<lparr>insns_size_in_code_units = 0,
                     insns = (\<lambda>i. \<lparr>Opcode = OTHER_CODE 0, vB = 0\<rparr>)\<rparr>,
      ToDexPc = (\<lambda>pc. 0), CheckIncompatibleClassChange = (\<lambda>k. False)\<rparr>"

definition ex_caller :: "Code \<Rightarrow> AbstractMethod" where
  "ex_caller opcode =
     \<lparr>IsRuntimeMethod = False, GetDexMethodIndex = 1, GetDeclaringClass = 201, GetCode = 20480,
      GetShorty = ''V'',
      GetCodeItem = \<lparr>insns_size_in_code_units = 8,
                     insns = (\<lambda>i. \<lparr>Opcode = opcode, vB = 5\<rparr>)\<rparr>,
      ToDexPc = (\<lambda>pc. 3), CheckIncompatibleClassChange = (\<lambda>k. False)\<rparr>"

definition ex_resolution_method :: AbstractMethod where
  "ex_resolution_method =
     \<lparr>IsRuntimeMethod = True, GetDexMethodIndex = 0, GetDeclaringClass = NULL, GetCode = NULL,
      GetShorty = [],
      GetCodeItem = \<lparr>insns_size_in_code_units = 0,
                     insns = (\<lambda>i. \<lparr>Opcode = OTHER_CODE 0, vB = 0\<rparr>)\<rparr>,
      ToDexPc = (\<lambda>pc. 0), CheckIncompatibleClassChange = (\<lambda>k. False)\<rparr>"

text \<open>
  The thread and heap: the pending exception, the state of class 200, the code pointer of
  method 100 and the opcode at the call site.
\<close>

definition ex_world :: "ptr \<Rightarrow> ClassInitState \<Rightarrow> ptr \<Rightarrow> Code \<Rightarrow> world" where
  "ex_world exc st code opcode =
     \<lparr>GetException = exc, GetCurrentMethod = (50, 3),
      methods = [50 \<mapsto> ex_caller opcode, 100 \<mapsto> ex_callee code, 102 \<mapsto> ex_resolution_method],
      classes = [200 \<mapsto> st, 201 \<mapsto> Initialized]\<rparr>"

text \<open>
  A class linker that resolves every method index to method 100, or fails with the
  exception object \<open>exc\<close> when that is not \<^verbatim>\<open>NULL\<close>; initialization leaves every class as
  it is; the oat code of every method is at \<open>oat\<close>.
\<close>

definition ex_linker :: "ptr \<Rightarrow> ptr \<Rightarrow> ClassLinker" where
  "ex_linker exc oat =
     \<lparr>MethodShorty = (\<lambda>i m w. ''VLJL''),
      ResolveMethod = (\<lambda>i m k w. if exc = NULL then (100, w) else (NULL, w\<lparr>GetException := exc\<rparr>)),
      EnsureInitialized = (\<lambda>c w. w),
      GetOatCodeFor = (\<lambda>m w. oat)\<rparr>"

text \<open>A stack whose word \<open>i\<close> holds \<open>1000 + i\<close>, but for the caller's method slot.\<close>

definition ex_state :: "nat \<Rightarrow> world \<Rightarrow> state" where
  "ex_state caller_sp w =
     \<lparr>stack = (\<lambda>i. if i = caller_sp then 50 else 1000 + i), thread = w,
      locals = [], local_ref_cookie = 0, linker_calls = []\<rparr>"

subsection \<open>Running the routine on concrete inputs\<close>

lemmas ex_defs = ex_build_def ex_stubs_def ex_runtime_def ex_callee_def ex_caller_def
  ex_resolution_method_def ex_world_def ex_linker_def ex_state_def

lemmas run_defs = UnresolvedDirectMethodTrampolineFromCode_def
  UnresolvedDirectMethodTrampolineFromCode_oat_def UnresolvedDirectMethodTrampolineFromCode_llvm_def
  trampoline_body_def before_gate_def before_gate_llvm_def frame_layout_def
  FinishCalleeSaveFrameSetup_def ScopedJniEnvLocalRefState_enter_def
  ScopedJniEnvLocalRefState_leave_def classify_def discover_shorty_def scope_step_def
  resolve_step_def oat_code_def method_code_def class_init_gate_def expect_resolved_def
  dispatch_def dispatch_llvm_def and_then_def CHECK_def DCHECK_def method_at_def class_at_def
  kPointerSize_def IsInitialized_def IsInitializing_def IsErroneous_def
  scope_references_def AddLocalReference_def arg_words_def
  returned_code_def returned_state_def resolutions_def shorty_lookups_def observe_def
  call_site_instruction_def call_site_checked_def decoded_invoke_type_def scoped_at_return_def

subsection \<open>The walk reads the right words\<close>

lemma arg_words_pos: "0 < arg_words c"
  by (simp add: arg_words_def)

lemma discover_args_in_regs_min:
  "a \<le> 3 \<Longrightarrow> discover_args_in_regs a cs = min 3 (a + total_words cs)"
proof (induction cs arbitrary: a)
  case Nil
  then show ?case by simp
next
  case (Cons c cs)
  then show ?case by (simp add: add.assoc)
qed

lemma stack_args_reads:
  "4 \<le> k \<Longrightarrow>
   stack_args regs (k + 11) cs ls = ls @ map (\<lambda>j. regs (argument_slot j)) (object_words k cs)"
proof (induction cs arbitrary: k ls)
  case Nil
  then show ?case by simp
next
  case (Cons c cs)
  have step: "stack_args regs (k + arg_words c + 11) cs ls' =
      ls' @ map (\<lambda>j. regs (argument_slot j)) (object_words (k + arg_words c) cs)" for ls'
    using Cons.IH [of "k + arg_words c" ls'] Cons.prems by simp
  have here: "regs (k + 11) = regs (argument_slot k)"
    using Cons.prems by (simp add: argument_slot_def)
  have shift: "k + 11 + arg_words c = k + arg_words c + 11"
    by simp
  show ?case
    by (simp add: shift step here AddLocalReference_def)
qed

lemma register_then_stack_reads:
  assumes "n \<le> 3" and "1 \<le> k" and "n = 3 \<or> k - 1 + total_words cs \<le> n"
  shows "(case register_args regs n k cs ls of (cur, rest, ls') \<Rightarrow> stack_args regs (cur + 11) rest ls')
         = ls @ map (\<lambda>j. regs (argument_slot j)) (object_words k cs)"
  using assms
proof (induction cs arbitrary: k ls)
  case Nil
  then show ?case by simp
next
  case (Cons c cs)
  show ?case
  proof (cases "k - 1 < n")
    case True
    then have k3: "k \<le> 3" using Cons.prems by simp
    have inv: "n = 3 \<or> (k + arg_words c) - 1 + total_words cs \<le> n"
      using Cons.prems by auto
    have "1 \<le> k + arg_words c" using Cons.prems by simp
    from Cons.IH [OF Cons.prems(1) this inv]
    have step: "(case register_args regs n (k + arg_words c) cs ls' of
                   (cur, rest, ls'') \<Rightarrow> stack_args regs (cur + 11) rest ls'')
                = ls' @ map (\<lambda>j. regs (argument_slot j)) (object_words (k + arg_words c) cs)" for ls' .
    have here: "regs k = regs (argument_slot k)"
      using k3 by (simp add: argument_slot_def)
    show ?thesis
      using True by (simp add: step here AddLocalReference_def)
  next
    case False
    have "n = 3"
    proof (rule ccontr)
      assume "n \<noteq> 3"
      then have "k - 1 + total_words (c # cs) \<le> n" using Cons.prems by simp
      moreover have "0 < arg_words c" by (rule arg_words_pos)
      ultimately show False using False by simp
    qed
    then have "4 \<le> k" using False Cons.prems by simp
    then show ?thesis
      using False stack_args_reads [of k regs "c # cs" ls] by simp
  qed
qed

lemma scope_references_static:
  "scope_references regs kStatic shorty ls =
     ls @ map (\<lambda>j. regs (argument_slot j)) (object_words 1 (drop 1 shorty))"
proof -
  let ?cs = "drop 1 shorty"
  let ?n = "discover_args_in_regs 0 ?cs"
  have n: "?n = min 3 (total_words ?cs)"
    using discover_args_in_regs_min [of 0 ?cs] by simp
  have "?n \<le> 3" and "?n = 3 \<or> 1 - 1 + total_words ?cs \<le> ?n"
    using n by auto
  from register_then_stack_reads [OF this(1) _ this(2), of regs ls]
  show ?thesis
    by (simp add: scope_references_def Let_def split: prod.splits)
qed

lemma scope_references_instance:
  assumes "invoke_type \<noteq> kStatic"
  shows "scope_references regs invoke_type shorty ls =
     ls @ regs 1 # map (\<lambda>j. regs (argument_slot j)) (object_words 2 (drop 1 shorty))"
proof -
  let ?cs = "drop 1 shorty"
  let ?n = "discover_args_in_regs 0 ?cs"
  define n' where "n' = (if ?n < 3 then ?n + 1 else ?n)"
  have n: "?n = min 3 (total_words ?cs)"
    using discover_args_in_regs_min [of 0 ?cs] by simp
  have le: "n' \<le> 3" and inv: "n' = 3 \<or> 2 - 1 + total_words ?cs \<le> n'"
    using n by (auto simp: n'_def)
  have two: "(1::nat) \<le> 2" by simp
  have walk: "(case register_args regs n' 2 ?cs (ls @ [regs 1]) of
                 (cur, rest, ls') \<Rightarrow> stack_args regs (cur + 11) rest ls')
              = (ls @ [regs 1]) @ map (\<lambda>j. regs (argument_slot j)) (object_words 2 ?cs)"
    by (rule register_then_stack_reads [OF le two inv])
  have "scope_references regs invoke_type shorty ls =
        (case register_args regs n' 2 ?cs (ls @ [regs 1]) of
           (cur, rest, ls') \<Rightarrow> stack_args regs (cur + 11) rest ls')"
    using assms
    by (simp add: scope_references_def Let_def AddLocalReference_def n'_def numeral_2_eq_2)
  then show ?thesis
    using walk by simp
qed

lemma length_object_words:
  "length (object_words k cs) = length (filter (\<lambda>c. c = CHR ''L'') cs)"
  by (induction cs arbitrary: k) auto

text \<open>
  C5. For every shorty, the reference-scoping walk registers one scoped reference for each
  object-typed parameter, after the receiver's for a call that is not static, and each
  is read from the word that holds that parameter: a \<^verbatim>\<open>J\<close> or \<^verbatim>\<open>D\<close> takes two words,
  every other parameter one; the first three argument words are read from the argument
  registers, the following ones from the caller's frame.
\<close>

theorem scope_references_walk:
  "scope_references regs invoke_type shorty ls =
     ls @ (if invoke_type = kStatic then [] else [regs 1]) @
     map (\<lambda>k. regs (argument_slot k))
       (object_words (if invoke_type = kStatic then 1 else 2) (drop 1 shorty))
   \<and> length (scope_references regs invoke_type shorty ls) =
     length ls + (if invoke_type = kStatic then 0 else 1) + object_parameters shorty"
  by (cases "invoke_type = kStatic")
    (simp_all add: scope_references_static scope_references_instance length_object_words
      object_parameters_def)

theorem scope_references_walk_witness:
  "scope_references (\<lambda>i. 1001 + i) kVirtual ''VLJL'' [] = [1002, 1003, 1017]
   \<and> scope_references (\<lambda>i. 1001 + i) kStatic ''VLJL'' [] = [1002, 1016]
   \<and> object_parameters ''VLJL'' = 2"
  using scope_references_walk [of "\<lambda>i. 1001 + i" kVirtual "''VLJL''" "[]"]
    scope_references_walk [of "\<lambda>i. 1001 + i" kStatic "''VLJL''" "[]"]
  by (simp add: argument_slot_def arg_words_def object_parameters_def)

subsection \<open>Steps of the routine\<close>

lemma and_then_Inr: "(and_then m f = Inr y) = (\<exists>x. m = Inr x \<and> f x = Inr y)"
  by (cases m) (simp_all add: and_then_def)

lemma and_then_Inl: "(and_then m f = Inl e) = (m = Inl e \<or> (\<exists>x. m = Inr x \<and> f x = Inl e))"
  by (cases m) (simp_all add: and_then_def)

lemma and_then_simps: "and_then (Inr x) f = f x" "and_then (Inl e) f = Inl e"
  by (simp_all add: and_then_def)

lemma scope_references_prefix:
  "take (length ls) (scope_references regs invoke_type shorty ls) = ls"
  by (cases "invoke_type = kStatic") (simp_all add: scope_references_static scope_references_instance)

lemma discover_shorty_keeps:
  "discover_shorty linker type called caller idx s = Inr (shorty, s') \<Longrightarrow>
   stack s' = stack s \<and> thread s' = thread s \<and> locals s' = locals s \<and> local_ref_cookie s' = local_ref_cookie s"
  by (auto simp: discover_shorty_def and_then_Inr split: if_splits)

lemma scope_step_keeps:
  assumes "scope_step cfg linker type called caller invoke_type idx regs s = Inr s'"
  shows "stack s' = stack s \<and> thread s' = thread s \<and> local_ref_cookie s' = local_ref_cookie s \<and>
    take (length (locals s)) (locals s') = locals s"
proof (cases "target cfg = I386")
  case True
  then show ?thesis using assms by (simp add: scope_step_def)
next
  case False
  then obtain shorty s1 where d: "discover_shorty linker type called caller idx s = Inr (shorty, s1)"
    and s': "s' = s1\<lparr>locals := scope_references (\<lambda>i. stack s1 (regs + i)) invoke_type shorty (locals s1)\<rparr>"
    using assms by (auto simp: scope_step_def and_then_Inr)
  show ?thesis
    using discover_shorty_keeps [OF d] by (simp add: s' scope_references_prefix)
qed

lemma resolve_step_keeps:
  assumes "resolve_step linker type idx caller invoke_type called s = (called', s')"
  shows "stack s' = stack s \<and> locals s' = locals s \<and> local_ref_cookie s' = local_ref_cookie s"
  using assms by (auto simp: resolve_step_def split: if_splits prod.splits)

lemma method_code_keeps:
  assumes "method_code cfg linker called s = Inr (code, s')"
  shows "stack s' = stack s \<and> locals s' = locals s \<and> local_ref_cookie s' = local_ref_cookie s \<and> thread s' = thread s"
  using assms by (auto simp: method_code_def oat_code_def and_then_Inr split: if_splits)

lemma class_init_gate_keeps:
  assumes "class_init_gate cfg linker invoke_type called s = Inr (code, s')"
  shows "stack s' = stack s \<and> locals s' = locals s \<and> local_ref_cookie s' = local_ref_cookie s"
proof (cases "GetException (thread s) = NULL")
  case False
  then show ?thesis using assms by (simp add: class_init_gate_def)
next
  case True
  then obtain m st where m: "method_at (thread s) called = Inr m"
    and rest: "(let s1 = s\<lparr>thread := EnsureInitialized linker (GetDeclaringClass m) (thread s),
                  linker_calls := linker_calls s @ [EnsureInitializedCall (GetDeclaringClass m)]\<rparr>
        in if IsInitialized st then method_code cfg linker called s1
           else if IsInitializing st then
             (if invoke_type = kStatic then Inr (oat_code linker called s1)
              else method_code cfg linker called s1)
           else and_then (DCHECK cfg (Inr (IsErroneous st))) (\<lambda>_. Inr (NULL, s1))) = Inr (code, s')"
    using assms by (auto simp: class_init_gate_def and_then_Inr Let_def)
  define s1 where "s1 = s\<lparr>thread := EnsureInitialized linker (GetDeclaringClass m) (thread s),
                  linker_calls := linker_calls s @ [EnsureInitializedCall (GetDeclaringClass m)]\<rparr>"
  have "method_code cfg linker called s1 = Inr (code, s') \<or> oat_code linker called s1 = (code, s') \<or> s' = s1"
    using rest unfolding s1_def [symmetric] Let_def
    by (auto simp: and_then_Inr split: if_splits)
  then have "stack s' = stack s1 \<and> locals s' = locals s1 \<and> local_ref_cookie s' = local_ref_cookie s1"
    using method_code_keeps [of cfg linker called s1 code s']
    by (auto simp: oat_code_def)
  then show ?thesis by (simp add: s1_def)
qed

lemma dispatch_keeps:
  assumes "dispatch cfg rt regs called code s = Inr (code', s')"
  shows "locals s' = locals s \<and> local_ref_cookie s' = local_ref_cookie s"
  using assms by (auto simp: dispatch_def and_then_Inr split: if_splits)

lemma dispatch_llvm_keeps:
  assumes "dispatch_llvm cfg rt called code s = Inr (code', s')"
  shows "locals s' = locals s \<and> local_ref_cookie s' = local_ref_cookie s"
  using assms by (auto simp: dispatch_llvm_def and_then_Inr split: if_splits)

lemma before_gate_Inr:
  assumes "before_gate cfg rt linker called s type = Inr (called', invoke_type, regs, saved, s1)"
  obtains caller_sp caller_pc s0 idx sS where
    "frame_layout cfg rt (stack s) = Inr (caller_sp, regs, caller_pc)"
    "saved = local_ref_cookie s"
    "s0 = s\<lparr>stack := (stack s)(0 := GetCalleeSaveMethod rt), local_ref_cookie := length (locals s)\<rparr>"
    "classify cfg (thread s) type called (stack s0 caller_sp) (\<lambda>cm. ToDexPc cm caller_pc) = Inr (invoke_type, idx)"
    "scope_step cfg linker type called (stack s0 caller_sp) invoke_type idx regs s0 = Inr sS"
    "resolve_step linker type idx (stack s0 caller_sp) invoke_type called sS = (called', s1)"
proof -
  from assms obtain caller_sp regs' caller_pc where
    fl: "frame_layout cfg rt (stack s) = Inr (caller_sp, regs', caller_pc)"
    by (cases "frame_layout cfg rt (stack s)") (auto simp: before_gate_def and_then_def)
  define s0 where "s0 = s\<lparr>stack := (stack s)(0 := GetCalleeSaveMethod rt), local_ref_cookie := length (locals s)\<rparr>"
  have enter: "ScopedJniEnvLocalRefState_enter (FinishCalleeSaveFrameSetup rt s) = (local_ref_cookie s, s0)"
    by (simp add: ScopedJniEnvLocalRefState_enter_def FinishCalleeSaveFrameSetup_def s0_def)
  have th: "thread s0 = thread s" by (simp add: s0_def)
  from assms obtain idx sS where
    "regs' = regs" "saved = local_ref_cookie s"
    "classify cfg (thread s) type called (stack s0 caller_sp) (\<lambda>cm. ToDexPc cm caller_pc) = Inr (invoke_type, idx)"
    "scope_step cfg linker type called (stack s0 caller_sp) invoke_type idx regs s0 = Inr sS"
    "resolve_step linker type idx (stack s0 caller_sp) invoke_type called sS = (called', s1)"
    unfolding before_gate_def fl and_then_simps prod.case enter Let_def th
    by (auto simp: and_then_Inr case_prod_beta prod_eq_iff)
  then show thesis
    using that [of caller_sp caller_pc s0 idx sS] fl by (simp add: s0_def)
qed

lemma before_gate_llvm_Inr:
  assumes "before_gate_llvm cfg linker called s type = Inr (called', invoke_type, s1)"
  obtains idx where
    "classify cfg (thread s) type called (fst (GetCurrentMethod (thread s)))
       (\<lambda>cm. snd (GetCurrentMethod (thread s))) = Inr (invoke_type, idx)"
    "resolve_step linker type idx (fst (GetCurrentMethod (thread s))) invoke_type called s = (called', s1)"
  using assms unfolding before_gate_llvm_def
  by (auto simp: and_then_Inr case_prod_beta prod_eq_iff)

lemma trampoline_body_Inr:
  assumes "trampoline_body cfg rt linker called s type = Inr (code, saved, sb)"
  obtains called' invoke_type regs s1 code0 s2 where
    "before_gate cfg rt linker called s type = Inr (called', invoke_type, regs, saved, s1)"
    "class_init_gate cfg linker invoke_type called' s1 = Inr (code0, s2)"
    "dispatch cfg rt regs called' code0 s2 = Inr (code, sb)"
  using assms unfolding trampoline_body_def
  by (auto simp: and_then_Inr)

lemma oat_Inr:
  assumes "UnresolvedDirectMethodTrampolineFromCode_oat cfg rt linker called s type = Inr (code, s')"
  obtains saved sb where
    "trampoline_body cfg rt linker called s type = Inr (code, saved, sb)"
    "s' = ScopedJniEnvLocalRefState_leave saved sb"
  using assms unfolding UnresolvedDirectMethodTrampolineFromCode_oat_def
  by (auto simp: and_then_Inr)

lemma llvm_Inr:
  assumes "UnresolvedDirectMethodTrampolineFromCode_llvm cfg rt linker called s type = Inr (code, s')"
  obtains called' invoke_type s1 code0 s2 where
    "before_gate_llvm cfg linker called s type = Inr (called', invoke_type, s1)"
    "class_init_gate cfg linker invoke_type called' s1 = Inr (code0, s2)"
    "dispatch_llvm cfg rt called' code0 s2 = Inr (code, s')"
  using assms unfolding UnresolvedDirectMethodTrampolineFromCode_llvm_def
  by (auto simp: and_then_Inr)

text \<open>
  C6. Every scoped reference created during an invocation is released before the
  invocation returns, whichever outcome it returns with: the local reference table and
  its cookie are after the return what they were before the call, so no reference
  opened by the invocation is left open.
\<close>

theorem scoped_references_released:
  assumes "UnresolvedDirectMethodTrampolineFromCode cfg rt linker called s type = Inr (code, s')"
  shows "locals s' = locals s \<and> local_ref_cookie s' = local_ref_cookie s"
proof (cases "ART_USE_LLVM_COMPILER cfg")
  case True
  then have "UnresolvedDirectMethodTrampolineFromCode_llvm cfg rt linker called s type = Inr (code, s')"
    using assms by (simp add: UnresolvedDirectMethodTrampolineFromCode_def)
  then obtain called' invoke_type s1 code0 s2 where
    pre: "before_gate_llvm cfg linker called s type = Inr (called', invoke_type, s1)" and
    gate: "class_init_gate cfg linker invoke_type called' s1 = Inr (code0, s2)" and
    disp: "dispatch_llvm cfg rt called' code0 s2 = Inr (code, s')"
    by (rule llvm_Inr)
  from pre obtain idx where
    "resolve_step linker type idx (fst (GetCurrentMethod (thread s))) invoke_type called s = (called', s1)"
    by (rule before_gate_llvm_Inr)
  from resolve_step_keeps [OF this] class_init_gate_keeps [OF gate] dispatch_llvm_keeps [OF disp]
  show ?thesis by simp
next
  case False
  then have "UnresolvedDirectMethodTrampolineFromCode_oat cfg rt linker called s type = Inr (code, s')"
    using assms by (simp add: UnresolvedDirectMethodTrampolineFromCode_def)
  then obtain saved sb where body: "trampoline_body cfg rt linker called s type = Inr (code, saved, sb)"
    and s': "s' = ScopedJniEnvLocalRefState_leave saved sb"
    by (rule oat_Inr)
  from body obtain called' invoke_type regs s1 code0 s2
    where pre: "before_gate cfg rt linker called s type = Inr (called', invoke_type, regs, saved, s1)"
      and gate: "class_init_gate cfg linker invoke_type called' s1 = Inr (code0, s2)"
      and disp: "dispatch cfg rt regs called' code0 s2 = Inr (code, sb)"
    by (rule trampoline_body_Inr)
  from pre obtain caller_sp caller_pc s0 idx sS where
    saved: "saved = local_ref_cookie s" and
    s0: "s0 = s\<lparr>stack := (stack s)(0 := GetCalleeSaveMethod rt), local_ref_cookie := length (locals s)\<rparr>" and
    sc: "scope_step cfg linker type called (stack s0 caller_sp) invoke_type idx regs s0 = Inr sS" and
    rs: "resolve_step linker type idx (stack s0 caller_sp) invoke_type called sS = (called', s1)"
    by (rule before_gate_Inr)
  have "local_ref_cookie sb = length (locals s)" "take (length (locals s)) (locals sb) = locals s"
    using scope_step_keeps [OF sc] resolve_step_keeps [OF rs]
      class_init_gate_keeps [OF gate] dispatch_keeps [OF disp]
    by (simp_all add: s0)
  then show ?thesis
    by (simp add: s' saved ScopedJniEnvLocalRefState_leave_def)
qed

theorem scoped_references_released_witness:
  "(case trampoline_body (ex_build Arm False False) (ex_runtime 48) (ex_linker NULL 16384) 100
           (ex_state 12 (ex_world NULL Initialized 12288 INVOKE_STATIC)) kStaticMethod of
      Inl a \<Rightarrow> False | Inr (code, saved, sb) \<Rightarrow> locals sb = [1002, 1016])
   \<and> returned_code (UnresolvedDirectMethodTrampolineFromCode (ex_build Arm False False)
        (ex_runtime 48) (ex_linker NULL 16384) 100
        (ex_state 12 (ex_world NULL Initialized 12288 INVOKE_STATIC)) kStaticMethod) = Some 12288
   \<and> map_option locals (returned_state (UnresolvedDirectMethodTrampolineFromCode
        (ex_build Arm False False) (ex_runtime 48) (ex_linker NULL 16384) 100
        (ex_state 12 (ex_world NULL Initialized 12288 INVOKE_STATIC)) kStaticMethod)) = Some []"
proof -
  let ?s = "ex_state 12 (ex_world NULL Initialized 12288 INVOKE_STATIC)"
  let ?run = "UnresolvedDirectMethodTrampolineFromCode (ex_build Arm False False)
        (ex_runtime 48) (ex_linker NULL 16384) 100 ?s kStaticMethod"
  have body: "(case trampoline_body (ex_build Arm False False) (ex_runtime 48) (ex_linker NULL 16384)
           100 ?s kStaticMethod of
      Inl a \<Rightarrow> False | Inr (code, saved, sb) \<Rightarrow> locals sb = [1002, 1016])"
    by (simp add: run_defs ex_defs Let_def)
  have "\<exists>s'. ?run = Inr (12288, s')"
    by (simp add: run_defs ex_defs Let_def)
  then obtain s' where run: "?run = Inr (12288, s')" ..
  have "locals s' = locals ?s"
    using scoped_references_released [OF run] by simp
  then have "locals s' = []"
    by (simp add: ex_state_def)
  then show ?thesis
    using body run by (simp add: returned_code_def returned_state_def)
qed

text \<open>
  C7 (as amended). In the build that compiles the reference scoper (the first variant on
  ARM), for every call that is not static the receiver is read from the first argument
  word after the method slot (\<^verbatim>\<open>regs[1]\<close>, register R1, stack word 2) and is the first
  scoped reference registered, whatever the shorty of the callee says; it is still the
  first one open at \<^verbatim>\<open>return code\<close>.
\<close>

theorem receiver_scoped_first:
  assumes "invoke_type \<noteq> kStatic"
  shows "take (Suc (length ls)) (scope_references regs invoke_type shorty ls) = ls @ [regs 1]
       \<and> (\<forall>called' rb saved s1.
            before_gate cfg rt linker called s type = Inr (called', invoke_type, rb, saved, s1) \<longrightarrow>
            target cfg \<noteq> I386 \<longrightarrow>
            target cfg = Arm \<and> rb = 1 \<and>
            take (Suc (length (locals s))) (locals s1) = locals s @ [stack s 2])
       \<and> (\<forall>refs.
            \<not> ART_USE_LLVM_COMPILER cfg \<and> target cfg = Arm \<and>
            decoded_invoke_type cfg rt linker called s type = Some invoke_type \<and>
            scoped_at_return cfg rt linker called s type = Some refs \<longrightarrow>
            take 1 refs = [stack s 2])"
proof -
  have walk: "take (Suc (length ls)) (scope_references regs invoke_type shorty ls) = ls @ [regs 1]"
    for regs shorty ls
    by (simp add: scope_references_instance [OF assms])
  have routine: "target cfg = Arm \<and> rb = 1 \<and>
            take (Suc (length (locals s))) (locals s1) = locals s @ [stack s 2]"
    if pre: "before_gate cfg rt linker called s type = Inr (called', invoke_type, rb, saved, s1)"
      and scoper: "target cfg \<noteq> I386"
    for called' rb saved s1
  proof -
    from pre obtain caller_sp caller_pc s0 idx sS where
      fl: "frame_layout cfg rt (stack s) = Inr (caller_sp, rb, caller_pc)" and
      s0: "s0 = s\<lparr>stack := (stack s)(0 := GetCalleeSaveMethod rt), local_ref_cookie := length (locals s)\<rparr>" and
      sc: "scope_step cfg linker type called (stack s0 caller_sp) invoke_type idx rb s0 = Inr sS" and
      rs: "resolve_step linker type idx (stack s0 caller_sp) invoke_type called sS = (called', s1)"
      by (rule before_gate_Inr)
    have arm: "target cfg = Arm \<and> rb = 1"
      using fl scoper
      by (cases "target cfg") (auto simp: frame_layout_def and_then_Inr kPointerSize_def)
    from sc scoper obtain shorty sd where
      d: "discover_shorty linker type called (stack s0 caller_sp) idx s0 = Inr (shorty, sd)" and
      sS: "sS = sd\<lparr>locals := scope_references (\<lambda>i. stack sd (rb + i)) invoke_type shorty (locals sd)\<rparr>"
      by (auto simp: scope_step_def and_then_Inr)
    have sd: "stack sd = stack s0" "locals sd = locals s0"
      using discover_shorty_keeps [OF d] by simp_all
    have "locals s1 = locals sS"
      using resolve_step_keeps [OF rs] by simp
    then have "take (Suc (length (locals s))) (locals s1) = locals s @ [stack s0 (rb + 1)]"
      using walk [of "locals sd" "\<lambda>i. stack sd (rb + i)" shorty]
      by (simp add: sS sd s0)
    then show ?thesis
      using arm by (simp add: s0 numeral_2_eq_2)
  qed
  have at_return: "take 1 refs = [stack s 2]"
    if built: "\<not> ART_USE_LLVM_COMPILER cfg \<and> target cfg = Arm \<and>
               decoded_invoke_type cfg rt linker called s type = Some invoke_type \<and>
               scoped_at_return cfg rt linker called s type = Some refs"
    for refs
  proof -
    from built obtain code saved sb where
      body: "trampoline_body cfg rt linker called s type = Inr (code, saved, sb)" and
      refs: "refs = drop (length (locals s)) (locals sb)"
      by (auto simp: scoped_at_return_def split: sum.splits)
    from body obtain called' invoke_type' rb s1 code0 s2 where
      pre: "before_gate cfg rt linker called s type = Inr (called', invoke_type', rb, saved, s1)" and
      gate: "class_init_gate cfg linker invoke_type' called' s1 = Inr (code0, s2)" and
      disp: "dispatch cfg rt rb called' code0 s2 = Inr (code, sb)"
      by (rule trampoline_body_Inr)
    have "invoke_type' = invoke_type"
      using built pre by (auto simp: decoded_invoke_type_def)
    with pre have pre': "before_gate cfg rt linker called s type = Inr (called', invoke_type, rb, saved, s1)"
      by simp
    have arm: "target cfg \<noteq> I386" using built by simp
    have first: "take (Suc (length (locals s))) (locals s1) = locals s @ [stack s 2]"
      using routine [OF pre' arm] by simp
    have "locals sb = locals s1"
      using class_init_gate_keeps [OF gate] dispatch_keeps [OF disp] by simp
    then have "take 1 refs = drop (length (locals s)) (take (Suc (length (locals s))) (locals s1))"
      by (simp add: refs drop_take)
    then show ?thesis
      by (simp add: first)
  qed
  show ?thesis
    using walk routine at_return by blast
qed

theorem receiver_scoped_first_witness:
  "take 1 (scope_references (\<lambda>i. 1001 + i) kVirtual ''VLJL'' []) = [1002]
   \<and> decoded_invoke_type (ex_build Arm False False) (ex_runtime 48) (ex_linker NULL 16384) 102
        (ex_state 12 (ex_world NULL Initialized 12288 INVOKE_VIRTUAL)) kUnknownMethod = Some kVirtual
   \<and> scoped_at_return (ex_build Arm False False) (ex_runtime 48) (ex_linker NULL 16384) 102
        (ex_state 12 (ex_world NULL Initialized 12288 INVOKE_VIRTUAL)) kUnknownMethod
      = Some [1002, 1003, 1017]
   \<and> stack (ex_state 12 (ex_world NULL Initialized 12288 INVOKE_VIRTUAL)) 2 = 1002"
proof -
  let ?s = "ex_state 12 (ex_world NULL Initialized 12288 INVOKE_VIRTUAL)"
  let ?cfg = "ex_build Arm False False"
  have virtual: "kVirtual \<noteq> kStatic" by simp
  have kind: "decoded_invoke_type ?cfg (ex_runtime 48) (ex_linker NULL 16384) 102 ?s kUnknownMethod
              = Some kVirtual"
    by (simp add: run_defs ex_defs Let_def)
  have refs: "scoped_at_return ?cfg (ex_runtime 48) (ex_linker NULL 16384) 102 ?s kUnknownMethod
              = Some [1002, 1003, 1017]"
    by (simp add: run_defs ex_defs Let_def)
  have built: "\<not> ART_USE_LLVM_COMPILER ?cfg \<and> target ?cfg = Arm"
    by (simp add: ex_build_def)
  have "take 1 [1002, 1003, 1017] = [stack ?s 2]"
    using receiver_scoped_first [OF virtual, of "[]" "\<lambda>i. 1001 + i" "''VLJL''" ?cfg "ex_runtime 48"
        "ex_linker NULL 16384" 102 ?s kUnknownMethod] kind refs built
    by blast
  moreover have "take 1 (scope_references (\<lambda>i. 1001 + i) kVirtual ''VLJL'' []) = [1002]"
    using receiver_scoped_first [OF virtual, of "[]" "\<lambda>i. 1001 + i" "''VLJL''"] by simp
  ultimately show ?thesis
    using kind refs by simp
qed

text \<open>
  C7 as stated fails: the same virtual call registers no receiver, and no reference at
  all, in the x86 build of the first variant, where the scoper is not compiled, and in
  the LLVM variant, which has none.
\<close>

theorem receiver_not_scoped_counterexample:
  "decoded_invoke_type (ex_build I386 False False) (ex_runtime 32) (ex_linker NULL 16384) 102
     (ex_state 8 (ex_world NULL Initialized 12288 INVOKE_VIRTUAL)) kUnknownMethod = Some kVirtual
   \<and> scoped_at_return (ex_build I386 False False) (ex_runtime 32) (ex_linker NULL 16384) 102
       (ex_state 8 (ex_world NULL Initialized 12288 INVOKE_VIRTUAL)) kUnknownMethod = Some []
   \<and> decoded_invoke_type (ex_build Arm True False) (ex_runtime 48) (ex_linker NULL 16384) 102
       (ex_state 12 (ex_world NULL Initialized 12288 INVOKE_VIRTUAL)) kUnknownMethod = Some kVirtual
   \<and> scoped_at_return (ex_build Arm True False) (ex_runtime 48) (ex_linker NULL 16384) 102
       (ex_state 12 (ex_world NULL Initialized 12288 INVOKE_VIRTUAL)) kUnknownMethod = Some []"
  by (simp add: run_defs ex_defs Let_def)

subsection \<open>The frame-size assertion\<close>

text \<open>
  C9 (as amended). In a build with the \<^verbatim>\<open>DCHECK\<close> assertions compiled in, the first
  variant of the routine, on ARM or x86, aborts the process as soon as the frame size of
  the callee-save method differs from the constant of the architecture (48 bytes on
  ARM, 32 bytes on x86).
\<close>

theorem frame_size_dcheck:
  assumes "\<not> ART_USE_LLVM_COMPILER cfg" and "\<not> NDEBUG cfg"
    and "(target cfg = Arm \<and> GetFrameSizeInBytes rt \<noteq> 48) \<or>
         (target cfg = I386 \<and> GetFrameSizeInBytes rt \<noteq> 32)"
  shows "UnresolvedDirectMethodTrampolineFromCode cfg rt linker called s type = Inl DCheckFailure"
proof -
  have "frame_layout cfg rt (stack s) = Inl DCheckFailure"
    using assms by (auto simp: frame_layout_def DCHECK_def and_then_simps)
  then show ?thesis
    using assms(1)
    by (simp add: UnresolvedDirectMethodTrampolineFromCode_def
        UnresolvedDirectMethodTrampolineFromCode_oat_def trampoline_body_def before_gate_def
        and_then_simps)
qed

theorem frame_size_dcheck_witness:
  "UnresolvedDirectMethodTrampolineFromCode (ex_build Arm False False) (ex_runtime 64)
     (ex_linker NULL 16384) 100 (ex_state 12 (ex_world NULL Initialized 12288 INVOKE_STATIC))
     kStaticMethod = Inl DCheckFailure
   \<and> UnresolvedDirectMethodTrampolineFromCode (ex_build I386 False False) (ex_runtime 48)
     (ex_linker NULL 16384) 100 (ex_state 8 (ex_world NULL Initialized 12288 INVOKE_STATIC))
     kStaticMethod = Inl DCheckFailure"
  using frame_size_dcheck [of "ex_build Arm False False" "ex_runtime 64"]
    frame_size_dcheck [of "ex_build I386 False False" "ex_runtime 48"]
  by (simp add: ex_build_def ex_runtime_def)

text \<open>
  C9 as stated fails: under \<^verbatim>\<open>NDEBUG\<close> the assertion is compiled out, and a call on a
  runtime whose frame size is 64 bytes returns an entry point.
\<close>

theorem frame_size_unchecked_counterexample:
  "GetFrameSizeInBytes (ex_runtime 64) \<noteq> 48 \<and>
   returned_code (UnresolvedDirectMethodTrampolineFromCode (ex_build Arm False True) (ex_runtime 64)
     (ex_linker NULL 16384) 100 (ex_state 12 (ex_world NULL Initialized 12288 INVOKE_STATIC))
     kStaticMethod) = Some 12288"
  by (simp add: run_defs ex_defs Let_def)

subsection \<open>Calls made on the class linker\<close>

lemma resolutions_append:
  "resolutions (cs @ [c]) = resolutions cs + (case c of ResolveMethodCall i m k \<Rightarrow> 1 | _ \<Rightarrow> 0)"
  by (cases c) (simp_all add: resolutions_def)

lemma shorty_lookups_append:
  "shorty_lookups (cs @ [c]) = shorty_lookups cs + (case c of MethodShortyCall i m \<Rightarrow> 1 | _ \<Rightarrow> 0)"
  by (cases c) (simp_all add: shorty_lookups_def)

lemma discover_shorty_calls:
  "discover_shorty linker type called caller idx s = Inr (shorty, s') \<Longrightarrow>
   resolutions (linker_calls s') = resolutions (linker_calls s)"
  by (auto simp: discover_shorty_def and_then_Inr resolutions_append split: if_splits)

lemma scope_step_calls:
  assumes "scope_step cfg linker type called caller invoke_type idx regs s = Inr s'"
  shows "resolutions (linker_calls s') = resolutions (linker_calls s)"
proof (cases "target cfg = I386")
  case True
  then show ?thesis using assms by (simp add: scope_step_def)
next
  case False
  then obtain shorty s1 where d: "discover_shorty linker type called caller idx s = Inr (shorty, s1)"
    and s': "s' = s1\<lparr>locals := scope_references (\<lambda>i. stack s1 (regs + i)) invoke_type shorty (locals s1)\<rparr>"
    using assms by (auto simp: scope_step_def and_then_Inr)
  show ?thesis
    using discover_shorty_calls [OF d] by (simp add: s')
qed

lemma resolve_step_calls:
  assumes "resolve_step linker type idx caller invoke_type called s = (called', s')"
  shows "resolutions (linker_calls s') =
         resolutions (linker_calls s) + (if type = kUnknownMethod then 1 else 0)"
  using assms by (auto simp: resolve_step_def resolutions_append split: if_splits prod.splits)

lemma resolve_step_explicit:
  assumes "resolve_step linker type idx caller invoke_type called s = (called', s')"
    and "type \<noteq> kUnknownMethod"
  shows "called' = called \<and> s' = s"
  using assms by (simp add: resolve_step_def)

lemma resolve_step_unknown:
  assumes "resolve_step linker kUnknownMethod idx caller invoke_type called s = (called', s')"
  shows "(called', thread s') = ResolveMethod linker idx caller invoke_type (thread s)"
  using assms by (auto simp: resolve_step_def split: prod.splits)

lemma method_code_calls:
  assumes "method_code cfg linker called s = Inr (code, s')"
  shows "resolutions (linker_calls s') = resolutions (linker_calls s)"
  using assms by (auto simp: method_code_def oat_code_def and_then_Inr resolutions_append split: if_splits)

lemma class_init_gate_calls:
  assumes "class_init_gate cfg linker invoke_type called s = Inr (code, s')"
  shows "resolutions (linker_calls s') = resolutions (linker_calls s)"
proof (cases "GetException (thread s) = NULL")
  case False
  then show ?thesis using assms by (simp add: class_init_gate_def)
next
  case True
  then obtain m st where m: "method_at (thread s) called = Inr m"
    and rest: "(let s1 = s\<lparr>thread := EnsureInitialized linker (GetDeclaringClass m) (thread s),
                  linker_calls := linker_calls s @ [EnsureInitializedCall (GetDeclaringClass m)]\<rparr>
        in if IsInitialized st then method_code cfg linker called s1
           else if IsInitializing st then
             (if invoke_type = kStatic then Inr (oat_code linker called s1)
              else method_code cfg linker called s1)
           else and_then (DCHECK cfg (Inr (IsErroneous st))) (\<lambda>_. Inr (NULL, s1))) = Inr (code, s')"
    using assms by (auto simp: class_init_gate_def and_then_Inr Let_def)
  define s1 where "s1 = s\<lparr>thread := EnsureInitialized linker (GetDeclaringClass m) (thread s),
                  linker_calls := linker_calls s @ [EnsureInitializedCall (GetDeclaringClass m)]\<rparr>"
  have "method_code cfg linker called s1 = Inr (code, s') \<or> oat_code linker called s1 = (code, s') \<or> s' = s1"
    using rest unfolding s1_def [symmetric] Let_def
    by (auto simp: and_then_Inr split: if_splits)
  then have "resolutions (linker_calls s') = resolutions (linker_calls s1)"
    using method_code_calls [of cfg linker called s1 code s']
    by (auto simp: oat_code_def resolutions_append)
  then show ?thesis by (simp add: s1_def resolutions_append)
qed

lemma dispatch_calls:
  assumes "dispatch cfg rt regs called code s = Inr (code', s')"
  shows "linker_calls s' = linker_calls s"
  using assms by (auto simp: dispatch_def and_then_Inr split: if_splits)

lemma dispatch_llvm_calls:
  assumes "dispatch_llvm cfg rt called code s = Inr (code', s')"
  shows "linker_calls s' = linker_calls s"
  using assms by (auto simp: dispatch_llvm_def and_then_Inr split: if_splits)

lemma classify_explicit:
  assumes "classify cfg w type called caller dex_pc_of = Inr (invoke_type, idx)"
    and "type \<noteq> kUnknownMethod"
  shows "invoke_type = (if type = kStaticMethod then kStatic else kDirect) \<and>
         (\<exists>m. methods w called = Some m \<and> idx = GetDexMethodIndex m)"
  using assms
  by (auto simp: classify_def and_then_Inr method_at_def split: option.splits)

lemma before_gate_calls:
  assumes "before_gate cfg rt linker called s type = Inr (called', invoke_type, regs, saved, s1)"
  shows "resolutions (linker_calls s1) =
         resolutions (linker_calls s) + (if type = kUnknownMethod then 1 else 0)"
proof -
  from assms obtain caller_sp caller_pc s0 idx sS where
    s0: "s0 = s\<lparr>stack := (stack s)(0 := GetCalleeSaveMethod rt), local_ref_cookie := length (locals s)\<rparr>" and
    sc: "scope_step cfg linker type called (stack s0 caller_sp) invoke_type idx regs s0 = Inr sS" and
    rs: "resolve_step linker type idx (stack s0 caller_sp) invoke_type called sS = (called', s1)"
    by (rule before_gate_Inr)
  show ?thesis
    using scope_step_calls [OF sc] resolve_step_calls [OF rs] by (simp add: s0)
qed

lemma before_gate_explicit:
  assumes "before_gate cfg rt linker called s type = Inr (called', invoke_type, regs, saved, s1)"
    and "type \<noteq> kUnknownMethod"
  shows "called' = called \<and> invoke_type = (if type = kStaticMethod then kStatic else kDirect) \<and>
         thread s1 = thread s"
proof -
  from assms(1) obtain caller_sp caller_pc s0 idx sS where
    s0: "s0 = s\<lparr>stack := (stack s)(0 := GetCalleeSaveMethod rt), local_ref_cookie := length (locals s)\<rparr>" and
    cl: "classify cfg (thread s) type called (stack s0 caller_sp) (\<lambda>cm. ToDexPc cm caller_pc) = Inr (invoke_type, idx)" and
    sc: "scope_step cfg linker type called (stack s0 caller_sp) invoke_type idx regs s0 = Inr sS" and
    rs: "resolve_step linker type idx (stack s0 caller_sp) invoke_type called sS = (called', s1)"
    by (rule before_gate_Inr)
  show ?thesis
    using classify_explicit [OF cl assms(2)] scope_step_keeps [OF sc]
      resolve_step_explicit [OF rs assms(2)] by (simp add: s0)
qed

lemma before_gate_unknown:
  assumes "before_gate cfg rt linker called s kUnknownMethod = Inr (called', invoke_type, regs, saved, s1)"
  shows "\<exists>idx caller. (called', thread s1) = ResolveMethod linker idx caller invoke_type (thread s)"
proof -
  from assms obtain caller_sp caller_pc s0 idx sS where
    s0: "s0 = s\<lparr>stack := (stack s)(0 := GetCalleeSaveMethod rt), local_ref_cookie := length (locals s)\<rparr>" and
    sc: "scope_step cfg linker kUnknownMethod called (stack s0 caller_sp) invoke_type idx regs s0 = Inr sS" and
    rs: "resolve_step linker kUnknownMethod idx (stack s0 caller_sp) invoke_type called sS = (called', s1)"
    by (rule before_gate_Inr)
  have "thread sS = thread s"
    using scope_step_keeps [OF sc] by (simp add: s0)
  then show ?thesis
    using resolve_step_unknown [OF rs] by auto
qed

lemma before_gate_llvm_calls:
  assumes "before_gate_llvm cfg linker called s type = Inr (called', invoke_type, s1)"
  shows "resolutions (linker_calls s1) =
         resolutions (linker_calls s) + (if type = kUnknownMethod then 1 else 0)"
proof -
  from assms obtain idx where
    "resolve_step linker type idx (fst (GetCurrentMethod (thread s))) invoke_type called s = (called', s1)"
    by (rule before_gate_llvm_Inr)
  then show ?thesis by (rule resolve_step_calls)
qed

lemma before_gate_llvm_explicit:
  assumes "before_gate_llvm cfg linker called s type = Inr (called', invoke_type, s1)"
    and "type \<noteq> kUnknownMethod"
  shows "called' = called \<and> invoke_type = (if type = kStaticMethod then kStatic else kDirect) \<and>
         thread s1 = thread s"
proof -
  from assms(1) obtain idx where
    cl: "classify cfg (thread s) type called (fst (GetCurrentMethod (thread s)))
       (\<lambda>cm. snd (GetCurrentMethod (thread s))) = Inr (invoke_type, idx)" and
    rs: "resolve_step linker type idx (fst (GetCurrentMethod (thread s))) invoke_type called s = (called', s1)"
    by (rule before_gate_llvm_Inr)
  show ?thesis
    using classify_explicit [OF cl assms(2)] resolve_step_explicit [OF rs assms(2)] by simp
qed

lemma returns_calls:
  assumes "UnresolvedDirectMethodTrampolineFromCode cfg rt linker called s type = Inr (code, s')"
  shows "resolutions (linker_calls s') =
         resolutions (linker_calls s) + (if type = kUnknownMethod then 1 else 0)"
proof (cases "ART_USE_LLVM_COMPILER cfg")
  case True
  then have "UnresolvedDirectMethodTrampolineFromCode_llvm cfg rt linker called s type = Inr (code, s')"
    using assms by (simp add: UnresolvedDirectMethodTrampolineFromCode_def)
  then obtain called' invoke_type s1 code0 s2 where
    pre: "before_gate_llvm cfg linker called s type = Inr (called', invoke_type, s1)" and
    gate: "class_init_gate cfg linker invoke_type called' s1 = Inr (code0, s2)" and
    disp: "dispatch_llvm cfg rt called' code0 s2 = Inr (code, s')"
    by (rule llvm_Inr)
  show ?thesis
    using before_gate_llvm_calls [OF pre] class_init_gate_calls [OF gate] dispatch_llvm_calls [OF disp]
    by simp
next
  case False
  then have "UnresolvedDirectMethodTrampolineFromCode_oat cfg rt linker called s type = Inr (code, s')"
    using assms by (simp add: UnresolvedDirectMethodTrampolineFromCode_def)
  then obtain saved sb where body: "trampoline_body cfg rt linker called s type = Inr (code, saved, sb)"
    and s': "s' = ScopedJniEnvLocalRefState_leave saved sb"
    by (rule oat_Inr)
  from body obtain called' invoke_type regs s1 code0 s2
    where pre: "before_gate cfg rt linker called s type = Inr (called', invoke_type, regs, saved, s1)"
      and gate: "class_init_gate cfg linker invoke_type called' s1 = Inr (code0, s2)"
      and disp: "dispatch cfg rt regs called' code0 s2 = Inr (code, sb)"
    by (rule trampoline_body_Inr)
  show ?thesis
    using before_gate_calls [OF pre] class_init_gate_calls [OF gate] dispatch_calls [OF disp]
    by (simp add: s' ScopedJniEnvLocalRefState_leave_def)
qed

text \<open>
  C8. A returning invocation has called the resolver exactly once when the trampoline
  type is \<^verbatim>\<open>kUnknownMethod\<close>, and not at all otherwise. With an explicit type the callee
  stays the method that was passed in, the thread and heap are untouched before the
  class-init gate, and the invoke kind is static for \<^verbatim>\<open>kStaticMethod\<close> and direct
  otherwise; with the unknown type the callee is what the resolver answered.
\<close>

theorem resolution_iff_unknown:
  assumes "UnresolvedDirectMethodTrampolineFromCode cfg rt linker called s type = Inr (code, s')"
  shows "(resolutions (linker_calls s') = resolutions (linker_calls s) + 1) = (type = kUnknownMethod)
    \<and> (resolutions (linker_calls s') = resolutions (linker_calls s)) = (type \<noteq> kUnknownMethod)
    \<and> (\<forall>called' invoke_type regs saved s1.
          before_gate cfg rt linker called s type = Inr (called', invoke_type, regs, saved, s1) \<longrightarrow>
          (if type = kUnknownMethod
           then \<exists>idx caller. (called', thread s1) = ResolveMethod linker idx caller invoke_type (thread s)
           else called' = called \<and> thread s1 = thread s \<and>
                invoke_type = (if type = kStaticMethod then kStatic else kDirect)))
    \<and> (\<forall>called' invoke_type s1.
          before_gate_llvm cfg linker called s type = Inr (called', invoke_type, s1) \<longrightarrow>
          type \<noteq> kUnknownMethod \<longrightarrow>
          called' = called \<and> thread s1 = thread s \<and>
          invoke_type = (if type = kStaticMethod then kStatic else kDirect))"
  using returns_calls [OF assms] before_gate_explicit [of cfg rt linker called s type]
    before_gate_unknown [of cfg rt linker called s] before_gate_llvm_explicit [of cfg linker called s type]
  by auto

theorem resolution_iff_unknown_witness:
  "map_option (\<lambda>s. resolutions (linker_calls s))
     (returned_state (UnresolvedDirectMethodTrampolineFromCode (ex_build Arm False False)
        (ex_runtime 48) (ex_linker NULL 16384) 102
        (ex_state 12 (ex_world NULL Initialized 12288 INVOKE_STATIC)) kUnknownMethod)) = Some 1
   \<and> map_option (\<lambda>s. resolutions (linker_calls s))
     (returned_state (UnresolvedDirectMethodTrampolineFromCode (ex_build Arm False False)
        (ex_runtime 48) (ex_linker NULL 16384) 100
        (ex_state 12 (ex_world NULL Initialized 12288 INVOKE_STATIC)) kStaticMethod)) = Some 0"
proof -
  let ?s = "ex_state 12 (ex_world NULL Initialized 12288 INVOKE_STATIC)"
  let ?run = "UnresolvedDirectMethodTrampolineFromCode (ex_build Arm False False)
        (ex_runtime 48) (ex_linker NULL 16384)"
  have "\<exists>s'. ?run 102 ?s kUnknownMethod = Inr (12288, s')"
    by (simp add: run_defs ex_defs Let_def)
  then obtain s' where unknown: "?run 102 ?s kUnknownMethod = Inr (12288, s')" ..
  have "\<exists>s'. ?run 100 ?s kStaticMethod = Inr (12288, s')"
    by (simp add: run_defs ex_defs Let_def)
  then obtain s'' where static: "?run 100 ?s kStaticMethod = Inr (12288, s'')" ..
  have none: "resolutions (linker_calls ?s) = 0"
    by (simp add: ex_state_def resolutions_def)
  have "resolutions (linker_calls s') = 1"
    using resolution_iff_unknown [OF unknown] none by simp
  moreover have "resolutions (linker_calls s'') = 0"
    using resolution_iff_unknown [OF static] none by simp
  ultimately show ?thesis
    using unknown static by (simp add: returned_state_def)
qed

subsection \<open>The x86 build against the ARM build\<close>

lemma classify_called:
  assumes "classify cfg w type called caller dex_pc_of = Inr (invoke_type, idx)"
    and "type \<noteq> kUnknownMethod"
  shows "\<exists>m. method_at w called = Inr m"
  using assms by (auto simp: classify_def and_then_Inr)

lemma gate_thread_only:
  assumes "thread s = thread t"
  shows "map_sum id (\<lambda>(c, s'). (c, thread s')) (class_init_gate cfg linker invoke_type called s)
       = map_sum id (\<lambda>(c, s'). (c, thread s')) (class_init_gate cfg linker invoke_type called t)"
  using assms
  by (simp add: class_init_gate_def method_code_def oat_code_def and_then_def Let_def
      split: sum.splits)

lemma dispatch_thread_only:
  assumes "thread s = thread t"
  shows "observe regs (dispatch cfg rt regs called code s) = observe regs' (dispatch cfg rt regs' called code t)"
  using assms
  by (simp add: dispatch_def expect_resolved_def observe_def and_then_def split: sum.splits)

lemma resolve_thread_only:
  assumes "thread s = thread t"
  shows "fst (resolve_step linker type idx caller invoke_type called s) =
         fst (resolve_step linker type idx caller invoke_type called t) \<and>
         thread (snd (resolve_step linker type idx caller invoke_type called s)) =
         thread (snd (resolve_step linker type idx caller invoke_type called t))"
  using assms by (simp add: resolve_step_def split: prod.splits)

lemma scope_step_total:
  assumes "classify cfg (thread s) type called caller dex_pc_of = Inr (invoke_type, idx)"
  shows "\<exists>s'. scope_step cfg linker type called caller invoke_type idx regs s = Inr s' \<and>
              thread s' = thread s"
proof (cases "type = kUnknownMethod")
  case True
  then show ?thesis
    by (simp add: scope_step_def discover_shorty_def and_then_simps)
next
  case False
  from classify_called [OF assms False] obtain m where "method_at (thread s) called = Inr m" ..
  then show ?thesis
    using False by (simp add: scope_step_def discover_shorty_def and_then_simps)
qed

lemma observe_leave:
  "observe regs (and_then r (\<lambda>(code, s). Inr (code, ScopedJniEnvLocalRefState_leave saved s)))
   = observe regs r"
  by (simp add: observe_def and_then_def ScopedJniEnvLocalRefState_leave_def split: sum.splits)

lemma oat_abort_in_classify:
  assumes "frame_layout cfg rt (stack s) = Inr (caller_sp, regs, caller_pc)"
    and "classify cfg (thread s) type called (((stack s)(0 := GetCalleeSaveMethod rt)) caller_sp)
           (\<lambda>cm. ToDexPc cm caller_pc) = Inl a"
  shows "UnresolvedDirectMethodTrampolineFromCode_oat cfg rt linker called s type = Inl a"
  using assms
  by (simp add: UnresolvedDirectMethodTrampolineFromCode_oat_def trampoline_body_def before_gate_def
      and_then_simps ScopedJniEnvLocalRefState_enter_def FinishCalleeSaveFrameSetup_def)

lemma oat_after_prefix:
  assumes "frame_layout cfg rt (stack s) = Inr (caller_sp, regs, caller_pc)"
    and "classify cfg (thread s) type called (((stack s)(0 := GetCalleeSaveMethod rt)) caller_sp)
           (\<lambda>cm. ToDexPc cm caller_pc) = Inr (invoke_type, idx)"
    and "scope_step cfg linker type called (((stack s)(0 := GetCalleeSaveMethod rt)) caller_sp)
           invoke_type idx regs
           (s\<lparr>stack := (stack s)(0 := GetCalleeSaveMethod rt), local_ref_cookie := length (locals s)\<rparr>)
         = Inr sS"
    and "resolve_step linker type idx (((stack s)(0 := GetCalleeSaveMethod rt)) caller_sp)
           invoke_type called sS = (called', s1)"
  shows "observe regs (UnresolvedDirectMethodTrampolineFromCode_oat cfg rt linker called s type) =
         (case class_init_gate cfg linker invoke_type called' s1 of
            Inl a \<Rightarrow> Inl a
          | Inr (code, s2) \<Rightarrow> observe regs (dispatch cfg rt regs called' code s2))"
proof -
  have "trampoline_body cfg rt linker called s type =
        and_then (class_init_gate cfg linker invoke_type called' s1) (\<lambda>(code, s2).
        and_then (dispatch cfg rt regs called' code s2) (\<lambda>(code, s3).
        Inr (code, local_ref_cookie s, s3)))"
    using assms
    by (simp add: trampoline_body_def before_gate_def and_then_simps
        ScopedJniEnvLocalRefState_enter_def FinishCalleeSaveFrameSetup_def)
  then show ?thesis
    by (simp add: UnresolvedDirectMethodTrampolineFromCode_oat_def observe_def and_then_def
        ScopedJniEnvLocalRefState_leave_def split: sum.splits)
qed

lemma gate_any_target:
  "class_init_gate (cfg\<lparr>target := a\<rparr>) linker invoke_type called s =
   class_init_gate cfg linker invoke_type called s"
  by (simp add: class_init_gate_def method_code_def DCHECK_def Let_def cong: if_cong)

lemma dispatch_any_target:
  "dispatch (cfg\<lparr>target := a\<rparr>) rt regs called code s = dispatch cfg rt regs called code s"
  "dispatch cfg (rt\<lparr>GetFrameSizeInBytes := n\<rparr>) regs called code s = dispatch cfg rt regs called code s"
  by (simp_all add: dispatch_def expect_resolved_def DCHECK_def)

lemma x86_behaves_as_arm:
  assumes "target cfg = I386"
    and "thread sA = thread s" and "stack sA 12 = stack s 8" and "stack sA 11 = stack s 7"
  shows "observe 0 (UnresolvedDirectMethodTrampolineFromCode_oat cfg
           (rt\<lparr>GetFrameSizeInBytes := 32\<rparr>) linker called s type) =
         observe 1 (UnresolvedDirectMethodTrampolineFromCode_oat (cfg\<lparr>target := Arm\<rparr>)
           (rt\<lparr>GetFrameSizeInBytes := 48\<rparr>) linker called sA type)"
proof -
  let ?cfgA = "cfg\<lparr>target := Arm\<rparr>"
  let ?rtA = "rt\<lparr>GetFrameSizeInBytes := 48\<rparr>"
  let ?rtX = "rt\<lparr>GetFrameSizeInBytes := 32\<rparr>"
  let ?caller = "stack s 8"
  let ?pc = "stack s 7"
  have flX: "frame_layout cfg ?rtX (stack s) = Inr (8, 0, ?pc)"
    using assms(1) by (simp add: frame_layout_def DCHECK_def and_then_simps kPointerSize_def)
  have flA: "frame_layout ?cfgA ?rtA (stack sA) = Inr (12, 1, ?pc)"
    using assms(4) by (simp add: frame_layout_def DCHECK_def and_then_simps kPointerSize_def)
  have callerX: "((stack s)(0 := GetCalleeSaveMethod ?rtX)) 8 = ?caller" by simp
  have callerA: "((stack sA)(0 := GetCalleeSaveMethod ?rtA)) 12 = ?caller"
    using assms(3) by simp
  have clA: "classify ?cfgA (thread sA) type called ?caller (\<lambda>cm. ToDexPc cm ?pc) =
             classify cfg (thread s) type called ?caller (\<lambda>cm. ToDexPc cm ?pc)"
    using assms(2) by (simp add: classify_def DCHECK_def)
  show ?thesis
  proof (cases "classify cfg (thread s) type called ?caller (\<lambda>cm. ToDexPc cm ?pc)")
    case (Inl a)
    have "UnresolvedDirectMethodTrampolineFromCode_oat cfg ?rtX linker called s type = Inl a"
      using oat_abort_in_classify [OF flX] Inl callerX by simp
    moreover have "UnresolvedDirectMethodTrampolineFromCode_oat ?cfgA ?rtA linker called sA type = Inl a"
      using oat_abort_in_classify [OF flA] Inl callerA clA by simp
    ultimately show ?thesis by (simp add: observe_def)
  next
    case (Inr p)
    obtain invoke_type idx where p: "p = (invoke_type, idx)" by (cases p)
    let ?s0X = "s\<lparr>stack := (stack s)(0 := GetCalleeSaveMethod ?rtX), local_ref_cookie := length (locals s)\<rparr>"
    let ?s0A = "sA\<lparr>stack := (stack sA)(0 := GetCalleeSaveMethod ?rtA), local_ref_cookie := length (locals sA)\<rparr>"
    have clX': "classify cfg (thread s) type called (((stack s)(0 := GetCalleeSaveMethod ?rtX)) 8)
           (\<lambda>cm. ToDexPc cm ?pc) = Inr (invoke_type, idx)"
      using Inr p by simp
    have clA': "classify ?cfgA (thread sA) type called (((stack sA)(0 := GetCalleeSaveMethod ?rtA)) 12)
           (\<lambda>cm. ToDexPc cm ?pc) = Inr (invoke_type, idx)"
      using Inr p clA callerA by simp
    have scX: "scope_step cfg linker type called (((stack s)(0 := GetCalleeSaveMethod ?rtX)) 8)
                 invoke_type idx 0 ?s0X = Inr ?s0X"
      using assms(1) by (simp add: scope_step_def)
    have "thread ?s0A = thread sA" by simp
    with clA' scope_step_total [of ?cfgA ?s0A type called _ _ invoke_type idx linker 1]
    obtain sSA where
      scA: "scope_step ?cfgA linker type called (((stack sA)(0 := GetCalleeSaveMethod ?rtA)) 12)
              invoke_type idx 1 ?s0A = Inr sSA" and
      thA: "thread sSA = thread sA"
      by auto
    obtain cX s1X where rsX: "resolve_step linker type idx (((stack s)(0 := GetCalleeSaveMethod ?rtX)) 8)
        invoke_type called ?s0X = (cX, s1X)" by (cases "resolve_step linker type idx (((stack s)(0 := GetCalleeSaveMethod ?rtX)) 8)
        invoke_type called ?s0X")
    obtain cA s1A where rsA: "resolve_step linker type idx (((stack sA)(0 := GetCalleeSaveMethod ?rtA)) 12)
        invoke_type called sSA = (cA, s1A)" by (cases "resolve_step linker type idx (((stack sA)(0 := GetCalleeSaveMethod ?rtA)) 12)
        invoke_type called sSA")
    have "thread sSA = thread ?s0X" using thA assms(2) by simp
    from resolve_thread_only [OF this, of linker type idx ?caller invoke_type called]
    have same: "cA = cX" "thread s1A = thread s1X"
      using rsX rsA callerA by simp_all
    have gate: "map_sum id (\<lambda>(c, s'). (c, thread s')) (class_init_gate ?cfgA linker invoke_type cX s1A)
       = map_sum id (\<lambda>(c, s'). (c, thread s')) (class_init_gate cfg linker invoke_type cX s1X)"
      using gate_thread_only [OF same(2), of cfg linker invoke_type cX]
      by (simp only: gate_any_target)
    have disp: "observe 1 (dispatch ?cfgA ?rtA 1 cX code s2A) = observe 0 (dispatch cfg ?rtX 0 cX code s2X)"
      if "thread s2A = thread s2X" for code s2A s2X
      using dispatch_thread_only [OF that, of 1 cfg rt cX code 0]
      by (simp only: dispatch_any_target)
    have X: "observe 0 (UnresolvedDirectMethodTrampolineFromCode_oat cfg ?rtX linker called s type) =
         (case class_init_gate cfg linker invoke_type cX s1X of
            Inl a \<Rightarrow> Inl a
          | Inr (code, s2) \<Rightarrow> observe 0 (dispatch cfg ?rtX 0 cX code s2))"
      by (rule oat_after_prefix [OF flX clX' scX rsX])
    have A: "observe 1 (UnresolvedDirectMethodTrampolineFromCode_oat ?cfgA ?rtA linker called sA type) =
         (case class_init_gate ?cfgA linker invoke_type cX s1A of
            Inl a \<Rightarrow> Inl a
          | Inr (code, s2) \<Rightarrow> observe 1 (dispatch ?cfgA ?rtA 1 cX code s2))"
      using oat_after_prefix [OF flA clA' scA] rsA same(1) by simp
    show ?thesis
    proof (cases "class_init_gate cfg linker invoke_type cX s1X")
      case (Inl a)
      then have "class_init_gate ?cfgA linker invoke_type cX s1A = Inl a"
        using gate by (cases "class_init_gate ?cfgA linker invoke_type cX s1A") simp_all
      then show ?thesis using X A Inl by simp
    next
      case (Inr q)
      obtain code s2X where q: "q = (code, s2X)" by (cases q)
      from gate Inr q obtain s2A where
        gA: "class_init_gate ?cfgA linker invoke_type cX s1A = Inr (code, s2A)" and
        th2: "thread s2A = thread s2X"
        by (cases "class_init_gate ?cfgA linker invoke_type cX s1A") auto
      show ?thesis
        using X A Inr q gA disp [OF th2] by simp
    qed
  qed
qed
lemma shorty_resolve_step:
  assumes "resolve_step linker type idx caller invoke_type called s = (called', s')"
  shows "shorty_lookups (linker_calls s') = shorty_lookups (linker_calls s)"
  using assms by (auto simp: resolve_step_def shorty_lookups_append split: if_splits prod.splits)

lemma shorty_method_code:
  assumes "method_code cfg linker called s = Inr (code, s')"
  shows "shorty_lookups (linker_calls s') = shorty_lookups (linker_calls s)"
  using assms
  by (auto simp: method_code_def oat_code_def and_then_Inr shorty_lookups_append split: if_splits)

lemma shorty_class_init_gate:
  assumes "class_init_gate cfg linker invoke_type called s = Inr (code, s')"
  shows "shorty_lookups (linker_calls s') = shorty_lookups (linker_calls s)"
proof (cases "GetException (thread s) = NULL")
  case False
  then show ?thesis using assms by (simp add: class_init_gate_def)
next
  case True
  then obtain m st where m: "method_at (thread s) called = Inr m"
    and rest: "(let s1 = s\<lparr>thread := EnsureInitialized linker (GetDeclaringClass m) (thread s),
                  linker_calls := linker_calls s @ [EnsureInitializedCall (GetDeclaringClass m)]\<rparr>
        in if IsInitialized st then method_code cfg linker called s1
           else if IsInitializing st then
             (if invoke_type = kStatic then Inr (oat_code linker called s1)
              else method_code cfg linker called s1)
           else and_then (DCHECK cfg (Inr (IsErroneous st))) (\<lambda>_. Inr (NULL, s1))) = Inr (code, s')"
    using assms by (auto simp: class_init_gate_def and_then_Inr Let_def)
  define s1 where "s1 = s\<lparr>thread := EnsureInitialized linker (GetDeclaringClass m) (thread s),
                  linker_calls := linker_calls s @ [EnsureInitializedCall (GetDeclaringClass m)]\<rparr>"
  have "method_code cfg linker called s1 = Inr (code, s') \<or> oat_code linker called s1 = (code, s') \<or> s' = s1"
    using rest unfolding s1_def [symmetric] Let_def
    by (auto simp: and_then_Inr split: if_splits)
  then have "shorty_lookups (linker_calls s') = shorty_lookups (linker_calls s1)"
    using shorty_method_code [of cfg linker called s1 code s']
    by (auto simp: oat_code_def shorty_lookups_append)
  then show ?thesis by (simp add: s1_def shorty_lookups_append)
qed

lemma x86_body_scopes_nothing:
  assumes "target cfg = I386"
    and "trampoline_body cfg rt linker called s type = Inr (code, saved, sb)"
  shows "locals sb = locals s \<and> shorty_lookups (linker_calls sb) = shorty_lookups (linker_calls s)"
proof -
  from assms(2) obtain called' invoke_type regs s1 code0 s2
    where pre: "before_gate cfg rt linker called s type = Inr (called', invoke_type, regs, saved, s1)"
      and gate: "class_init_gate cfg linker invoke_type called' s1 = Inr (code0, s2)"
      and disp: "dispatch cfg rt regs called' code0 s2 = Inr (code, sb)"
    by (rule trampoline_body_Inr)
  from pre obtain caller_sp caller_pc s0 idx sS where
    s0: "s0 = s\<lparr>stack := (stack s)(0 := GetCalleeSaveMethod rt), local_ref_cookie := length (locals s)\<rparr>" and
    sc: "scope_step cfg linker type called (stack s0 caller_sp) invoke_type idx regs s0 = Inr sS" and
    rs: "resolve_step linker type idx (stack s0 caller_sp) invoke_type called sS = (called', s1)"
    by (rule before_gate_Inr)
  have "sS = s0"
    using sc assms(1) by (simp add: scope_step_def)
  then show ?thesis
    using resolve_step_keeps [OF rs] shorty_resolve_step [OF rs]
      class_init_gate_keeps [OF gate] shorty_class_init_gate [OF gate]
      dispatch_keeps [OF disp] dispatch_calls [OF disp]
    by (simp add: s0)
qed

text \<open>
  C10. In the x86 build of the first variant no scoped reference is created and no
  shorty is looked up: at \<^verbatim>\<open>return code\<close> the local reference table is what it was on
  entry. Resolution, the class-init gate and the dispatch are those of the ARM build:
  on an ARM stack holding the same caller and return address, and with each build's
  frame-size constant in place, the same abort happens or the same entry point, thread,
  heap and result slot \<^verbatim>\<open>regs[0]\<close> come back.
\<close>

theorem x86_scopes_nothing:
  assumes "target cfg = I386"
  shows "(\<forall>code saved sb.
            trampoline_body cfg rt linker called s type = Inr (code, saved, sb) \<longrightarrow>
            locals sb = locals s \<and>
            shorty_lookups (linker_calls sb) = shorty_lookups (linker_calls s))
       \<and> (\<forall>sA. thread sA = thread s \<and> stack sA 12 = stack s 8 \<and> stack sA 11 = stack s 7 \<longrightarrow>
            observe 0 (UnresolvedDirectMethodTrampolineFromCode_oat cfg
               (rt\<lparr>GetFrameSizeInBytes := 32\<rparr>) linker called s type) =
            observe 1 (UnresolvedDirectMethodTrampolineFromCode_oat (cfg\<lparr>target := Arm\<rparr>)
               (rt\<lparr>GetFrameSizeInBytes := 48\<rparr>) linker called sA type))"
  using x86_body_scopes_nothing [OF assms] x86_behaves_as_arm [OF assms]
  by blast

theorem x86_scopes_nothing_witness:
  "(case trampoline_body (ex_build I386 False False) (ex_runtime 32) (ex_linker NULL 16384) 102
           (ex_state 8 (ex_world NULL Initialized 12288 INVOKE_VIRTUAL)) kUnknownMethod of
      Inl a \<Rightarrow> False
    | Inr (code, saved, sb) \<Rightarrow> code = 12288 \<and> locals sb = [] \<and> stack sb 0 = 100)
   \<and> observe 1 (UnresolvedDirectMethodTrampolineFromCode_oat (ex_build Arm False False)
        (ex_runtime 48) (ex_linker NULL 16384) 102
        (ex_state 8 (ex_world NULL Initialized 12288 INVOKE_VIRTUAL)
           \<lparr>stack := (\<lambda>i. stack (ex_state 8 (ex_world NULL Initialized 12288 INVOKE_VIRTUAL)) (i - 4))\<rparr>)
        kUnknownMethod)
     = Inr (12288, ex_world NULL Initialized 12288 INVOKE_VIRTUAL, 100)"
proof -
  let ?w = "ex_world NULL Initialized 12288 INVOKE_VIRTUAL"
  let ?s = "ex_state 8 ?w"
  let ?sA = "?s\<lparr>stack := (\<lambda>i. stack ?s (i - 4))\<rparr>"
  let ?cfg = "ex_build I386 False False"
  have x86: "target ?cfg = I386" by (simp add: ex_build_def)
  have "\<exists>sb. trampoline_body ?cfg (ex_runtime 32) (ex_linker NULL 16384) 102 ?s kUnknownMethod
        = Inr (12288, 0, sb) \<and> stack sb 0 = 100"
    by (simp add: run_defs ex_defs Let_def)
  then obtain sb where body: "trampoline_body ?cfg (ex_runtime 32) (ex_linker NULL 16384) 102 ?s
      kUnknownMethod = Inr (12288, 0, sb)" and slot: "stack sb 0 = 100" by blast
  have "locals sb = locals ?s"
    using x86_scopes_nothing [OF x86, of "ex_runtime 32" "ex_linker NULL 16384" 102 ?s kUnknownMethod] body
    by blast
  then have a: "locals sb = []" by (simp add: ex_state_def)
  have rel: "thread ?sA = thread ?s \<and> stack ?sA 12 = stack ?s 8 \<and> stack ?sA 11 = stack ?s 7"
    by simp
  have cfgs: "?cfg\<lparr>target := Arm\<rparr> = ex_build Arm False False"
    "(ex_runtime 32)\<lparr>GetFrameSizeInBytes := 48\<rparr> = ex_runtime 48"
    "(ex_runtime 32)\<lparr>GetFrameSizeInBytes := 32\<rparr> = ex_runtime 32"
    by (simp_all add: ex_build_def ex_runtime_def)
  have "observe 0 (UnresolvedDirectMethodTrampolineFromCode_oat ?cfg (ex_runtime 32)
          (ex_linker NULL 16384) 102 ?s kUnknownMethod) =
        observe 1 (UnresolvedDirectMethodTrampolineFromCode_oat (ex_build Arm False False)
          (ex_runtime 48) (ex_linker NULL 16384) 102 ?sA kUnknownMethod)"
    using x86_scopes_nothing [OF x86, of "ex_runtime 32" "ex_linker NULL 16384" 102 ?s kUnknownMethod] rel
    unfolding cfgs by blast
  moreover have "observe 0 (UnresolvedDirectMethodTrampolineFromCode_oat ?cfg (ex_runtime 32)
          (ex_linker NULL 16384) 102 ?s kUnknownMethod) = Inr (12288, ?w, 100)"
    by (simp add: run_defs ex_defs observe_def Let_def)
  ultimately show ?thesis
    using body a slot by simp
qed

subsection \<open>The call-site decode\<close>

lemma classify_unknown:
  assumes "classify cfg w kUnknownMethod called caller dex_pc_of = Inr (invoke_type, idx)"
    and "methods w caller = Some cm"
  shows "switch_instr_code (Opcode (insns (GetCodeItem cm) (dex_pc_of cm))) = Inr invoke_type \<and>
         idx = vB (insns (GetCodeItem cm) (dex_pc_of cm))"
  using assms by (auto simp: classify_def and_then_Inr method_at_def)

lemma classify_unexpected:
  assumes "methods w caller = Some cm"
    and "switch_instr_code (Opcode (insns (GetCodeItem cm) (dex_pc_of cm))) = Inl LogFatal"
  shows "\<exists>a. classify cfg w kUnknownMethod called caller dex_pc_of = Inl a"
proof (cases "classify cfg w kUnknownMethod called caller dex_pc_of")
  case (Inl a)
  then show ?thesis by blast
next
  case (Inr p)
  obtain invoke_type idx where "p = (invoke_type, idx)" by (cases p)
  with Inr classify_unknown [OF _ assms(1)] assms(2) show ?thesis by auto
qed

lemma llvm_abort_in_classify:
  assumes "classify cfg (thread s) type called (fst (GetCurrentMethod (thread s)))
             (\<lambda>cm. snd (GetCurrentMethod (thread s))) = Inl a"
  shows "UnresolvedDirectMethodTrampolineFromCode_llvm cfg rt linker called s type = Inl a"
  using assms
  by (simp add: UnresolvedDirectMethodTrampolineFromCode_llvm_def before_gate_llvm_def
      and_then_simps case_prod_beta)

lemma classify_decodes:
  assumes "methods w caller = Some cm"
    and "switch_instr_code (Opcode (insns (GetCodeItem cm) (dex_pc_of cm))) = r"
    and "NDEBUG cfg \<or> (case methods w called of None \<Rightarrow> False | Some m \<Rightarrow> IsRuntimeMethod m)"
    and "dex_pc_of cm < insns_size_in_code_units (GetCodeItem cm)"
  shows "classify cfg w kUnknownMethod called caller dex_pc_of =
         (case r of Inl a \<Rightarrow> Inl a
          | Inr k \<Rightarrow> Inr (k, vB (insns (GetCodeItem cm) (dex_pc_of cm))))"
  using assms
  by (auto simp: classify_def and_then_simps method_at_def DCHECK_def CHECK_def
      split: option.splits sum.splits)

lemma before_gate_after_classify:
  assumes "frame_layout cfg rt (stack s) = Inr (caller_sp, regs, caller_pc)"
    and "classify cfg (thread s) type called (((stack s)(0 := GetCalleeSaveMethod rt)) caller_sp)
           (\<lambda>cm. ToDexPc cm caller_pc) = Inr (invoke_type, idx)"
  shows "\<exists>called' s1. before_gate cfg rt linker called s type =
           Inr (called', invoke_type, regs, local_ref_cookie s, s1)"
proof -
  let ?caller = "((stack s)(0 := GetCalleeSaveMethod rt)) caller_sp"
  let ?s0 = "s\<lparr>stack := (stack s)(0 := GetCalleeSaveMethod rt), local_ref_cookie := length (locals s)\<rparr>"
  have "classify cfg (thread ?s0) type called ?caller (\<lambda>cm. ToDexPc cm caller_pc) = Inr (invoke_type, idx)"
    using assms(2) by simp
  from scope_step_total [OF this, of linker regs] obtain sS where
    sc: "scope_step cfg linker type called ?caller invoke_type idx regs ?s0 = Inr sS" by blast
  obtain called' s1 where
    rs: "resolve_step linker type idx ?caller invoke_type called sS = (called', s1)"
    by (cases "resolve_step linker type idx ?caller invoke_type called sS")
  have "before_gate cfg rt linker called s type = Inr (called', invoke_type, regs, local_ref_cookie s, s1)"
    using assms sc rs
    by (simp add: before_gate_def and_then_simps ScopedJniEnvLocalRefState_enter_def
        FinishCalleeSaveFrameSetup_def)
  then show ?thesis by blast
qed

lemma before_gate_llvm_after_classify:
  assumes "classify cfg (thread s) type called (fst (GetCurrentMethod (thread s)))
             (\<lambda>cm. snd (GetCurrentMethod (thread s))) = Inr (invoke_type, idx)"
  shows "\<exists>called' s1. before_gate_llvm cfg linker called s type = Inr (called', invoke_type, s1)"
  using assms
  by (simp add: before_gate_llvm_def and_then_simps case_prod_beta)

lemma decoded_at_call_site:
  assumes "call_site_instruction cfg rt s = Some instr"
    and "call_site_checked cfg rt called s"
    and "switch_instr_code (Opcode instr) = Inr k"
  shows "decoded_invoke_type cfg rt linker called s kUnknownMethod = Some k"
proof (cases "ART_USE_LLVM_COMPILER cfg")
  case True
  from assms(1) True obtain cm where
    cm: "methods (thread s) (fst (GetCurrentMethod (thread s))) = Some cm" and
    instr: "instr = insns (GetCodeItem cm) (snd (GetCurrentMethod (thread s)))"
    by (auto simp: call_site_instruction_def case_prod_beta split: option.splits)
  have checks: "NDEBUG cfg \<or> (case methods (thread s) called of None \<Rightarrow> False | Some m \<Rightarrow> IsRuntimeMethod m)"
    "snd (GetCurrentMethod (thread s)) < insns_size_in_code_units (GetCodeItem cm)"
    using assms(2) True cm by (auto simp: call_site_checked_def case_prod_beta)
  have sw: "switch_instr_code (Opcode (insns (GetCodeItem cm) (snd (GetCurrentMethod (thread s))))) = Inr k"
    using assms(3) instr by simp
  have "classify cfg (thread s) kUnknownMethod called (fst (GetCurrentMethod (thread s)))
          (\<lambda>cm. snd (GetCurrentMethod (thread s))) =
        Inr (k, vB (insns (GetCodeItem cm) (snd (GetCurrentMethod (thread s)))))"
    using classify_decodes [where dex_pc_of = "\<lambda>cm. snd (GetCurrentMethod (thread s))"
        and r = "Inr k" and cfg = cfg and called = called, OF cm] sw checks
    by simp
  from before_gate_llvm_after_classify [OF this, of linker] show ?thesis
    using True by (auto simp: decoded_invoke_type_def)
next
  case False
  from assms(1) False obtain caller_sp regs caller_pc cm where
    fl: "frame_layout cfg rt (stack s) = Inr (caller_sp, regs, caller_pc)" and
    cm: "methods (thread s) (((stack s)(0 := GetCalleeSaveMethod rt)) caller_sp) = Some cm" and
    instr: "instr = insns (GetCodeItem cm) (ToDexPc cm caller_pc)"
    by (auto simp: call_site_instruction_def split: option.splits sum.splits)
  have checks: "NDEBUG cfg \<or> (case methods (thread s) called of None \<Rightarrow> False | Some m \<Rightarrow> IsRuntimeMethod m)"
    "ToDexPc cm caller_pc < insns_size_in_code_units (GetCodeItem cm)"
    using assms(2) False fl cm by (auto simp: call_site_checked_def)
  have sw: "switch_instr_code (Opcode (insns (GetCodeItem cm) (ToDexPc cm caller_pc))) = Inr k"
    using assms(3) instr by simp
  have "classify cfg (thread s) kUnknownMethod called (((stack s)(0 := GetCalleeSaveMethod rt)) caller_sp)
          (\<lambda>cm. ToDexPc cm caller_pc) =
        Inr (k, vB (insns (GetCodeItem cm) (ToDexPc cm caller_pc)))"
    using classify_decodes [where dex_pc_of = "\<lambda>cm. ToDexPc cm caller_pc"
        and r = "Inr k" and cfg = cfg and called = called, OF cm] sw checks
    by simp
  from before_gate_after_classify [OF fl this, of linker] show ?thesis
    using False by (auto simp: decoded_invoke_type_def)
qed

lemma fatal_at_call_site:
  assumes "call_site_instruction cfg rt s = Some instr"
    and "call_site_checked cfg rt called s"
    and "switch_instr_code (Opcode instr) = Inl LogFatal"
  shows "UnresolvedDirectMethodTrampolineFromCode cfg rt linker called s kUnknownMethod = Inl LogFatal"
proof (cases "ART_USE_LLVM_COMPILER cfg")
  case True
  from assms(1) True obtain cm where
    cm: "methods (thread s) (fst (GetCurrentMethod (thread s))) = Some cm" and
    instr: "instr = insns (GetCodeItem cm) (snd (GetCurrentMethod (thread s)))"
    by (auto simp: call_site_instruction_def case_prod_beta split: option.splits)
  have checks: "NDEBUG cfg \<or> (case methods (thread s) called of None \<Rightarrow> False | Some m \<Rightarrow> IsRuntimeMethod m)"
    "snd (GetCurrentMethod (thread s)) < insns_size_in_code_units (GetCodeItem cm)"
    using assms(2) True cm by (auto simp: call_site_checked_def case_prod_beta)
  have sw: "switch_instr_code (Opcode (insns (GetCodeItem cm) (snd (GetCurrentMethod (thread s))))) = Inl LogFatal"
    using assms(3) instr by simp
  have "classify cfg (thread s) kUnknownMethod called (fst (GetCurrentMethod (thread s)))
          (\<lambda>cm. snd (GetCurrentMethod (thread s))) = Inl LogFatal"
    using classify_decodes [where dex_pc_of = "\<lambda>cm. snd (GetCurrentMethod (thread s))"
        and r = "Inl LogFatal" and cfg = cfg and called = called, OF cm] sw checks
    by simp
  from llvm_abort_in_classify [OF this] show ?thesis
    using True by (simp add: UnresolvedDirectMethodTrampolineFromCode_def)
next
  case False
  from assms(1) False obtain caller_sp regs caller_pc cm where
    fl: "frame_layout cfg rt (stack s) = Inr (caller_sp, regs, caller_pc)" and
    cm: "methods (thread s) (((stack s)(0 := GetCalleeSaveMethod rt)) caller_sp) = Some cm" and
    instr: "instr = insns (GetCodeItem cm) (ToDexPc cm caller_pc)"
    by (auto simp: call_site_instruction_def split: option.splits sum.splits)
  have checks: "NDEBUG cfg \<or> (case methods (thread s) called of None \<Rightarrow> False | Some m \<Rightarrow> IsRuntimeMethod m)"
    "ToDexPc cm caller_pc < insns_size_in_code_units (GetCodeItem cm)"
    using assms(2) False fl cm by (auto simp: call_site_checked_def)
  have sw: "switch_instr_code (Opcode (insns (GetCodeItem cm) (ToDexPc cm caller_pc))) = Inl LogFatal"
    using assms(3) instr by simp
  have "classify cfg (thread s) kUnknownMethod called (((stack s)(0 := GetCalleeSaveMethod rt)) caller_sp)
          (\<lambda>cm. ToDexPc cm caller_pc) = Inl LogFatal"
    using classify_decodes [where dex_pc_of = "\<lambda>cm. ToDexPc cm caller_pc"
        and r = "Inl LogFatal" and cfg = cfg and called = called, OF cm] sw checks
    by simp
  from oat_abort_in_classify [OF fl this] show ?thesis
    using False by (simp add: UnresolvedDirectMethodTrampolineFromCode_def)
qed

text \<open>
  C4. When the trampoline type is \<^verbatim>\<open>kUnknownMethod\<close>, the instruction at the caller's
  program counter decides the invoke kind. Once the two checks before the \<^verbatim>\<open>switch\<close>
  have passed, either variant of the routine goes on with the direct kind for
  invoke-direct and invoke-direct/range, the static kind for invoke-static and
  invoke-static/range, the super kind for invoke-super and invoke-super/range, and the
  virtual kind for invoke-virtual and invoke-virtual/range, and for every other opcode
  the process is aborted by \<^verbatim>\<open>LOG(FATAL)\<close>. Whether or not the checks pass, the routine
  never goes on with a kind other than the one of the opcode at the call site, and for
  an opcode outside the eight it does not return.
\<close>

theorem call_site_decode:
  assumes "call_site_instruction cfg rt s = Some instr"
  shows "(call_site_checked cfg rt called s \<longrightarrow>
            (Opcode instr \<in> {INVOKE_DIRECT, INVOKE_DIRECT_RANGE} \<longrightarrow>
               decoded_invoke_type cfg rt linker called s kUnknownMethod = Some kDirect) \<and>
            (Opcode instr \<in> {INVOKE_STATIC, INVOKE_STATIC_RANGE} \<longrightarrow>
               decoded_invoke_type cfg rt linker called s kUnknownMethod = Some kStatic) \<and>
            (Opcode instr \<in> {INVOKE_SUPER, INVOKE_SUPER_RANGE} \<longrightarrow>
               decoded_invoke_type cfg rt linker called s kUnknownMethod = Some kSuper) \<and>
            (Opcode instr \<in> {INVOKE_VIRTUAL, INVOKE_VIRTUAL_RANGE} \<longrightarrow>
               decoded_invoke_type cfg rt linker called s kUnknownMethod = Some kVirtual) \<and>
            (Opcode instr \<notin> {INVOKE_DIRECT, INVOKE_DIRECT_RANGE, INVOKE_STATIC, INVOKE_STATIC_RANGE,
                               INVOKE_SUPER, INVOKE_SUPER_RANGE, INVOKE_VIRTUAL, INVOKE_VIRTUAL_RANGE} \<longrightarrow>
               UnresolvedDirectMethodTrampolineFromCode cfg rt linker called s kUnknownMethod
                 = Inl LogFatal)) \<and>
         switch_instr_code INVOKE_DIRECT = Inr kDirect \<and>
         switch_instr_code INVOKE_DIRECT_RANGE = Inr kDirect \<and>
         switch_instr_code INVOKE_STATIC = Inr kStatic \<and>
         switch_instr_code INVOKE_STATIC_RANGE = Inr kStatic \<and>
         switch_instr_code INVOKE_SUPER = Inr kSuper \<and>
         switch_instr_code INVOKE_SUPER_RANGE = Inr kSuper \<and>
         switch_instr_code INVOKE_VIRTUAL = Inr kVirtual \<and>
         switch_instr_code INVOKE_VIRTUAL_RANGE = Inr kVirtual \<and>
         (\<forall>called' invoke_type regs saved s1.
            before_gate cfg rt linker called s kUnknownMethod = Inr (called', invoke_type, regs, saved, s1) \<longrightarrow>
            \<not> ART_USE_LLVM_COMPILER cfg \<longrightarrow>
            switch_instr_code (Opcode instr) = Inr invoke_type) \<and>
         (\<forall>called' invoke_type s1.
            before_gate_llvm cfg linker called s kUnknownMethod = Inr (called', invoke_type, s1) \<longrightarrow>
            ART_USE_LLVM_COMPILER cfg \<longrightarrow>
            switch_instr_code (Opcode instr) = Inr invoke_type) \<and>
         (Opcode instr \<notin> {INVOKE_DIRECT, INVOKE_DIRECT_RANGE, INVOKE_STATIC, INVOKE_STATIC_RANGE,
                            INVOKE_SUPER, INVOKE_SUPER_RANGE, INVOKE_VIRTUAL, INVOKE_VIRTUAL_RANGE} \<longrightarrow>
          (\<exists>a. UnresolvedDirectMethodTrampolineFromCode cfg rt linker called s kUnknownMethod = Inl a))"
proof -
  have oat: "switch_instr_code (Opcode instr) = Inr invoke_type"
    if pre: "before_gate cfg rt linker called s kUnknownMethod = Inr (called', invoke_type, regs, saved, s1)"
      and "\<not> ART_USE_LLVM_COMPILER cfg"
    for called' invoke_type regs saved s1
  proof -
    from pre obtain caller_sp caller_pc s0 idx where
      fl: "frame_layout cfg rt (stack s) = Inr (caller_sp, regs, caller_pc)" and
      s0: "s0 = s\<lparr>stack := (stack s)(0 := GetCalleeSaveMethod rt), local_ref_cookie := length (locals s)\<rparr>" and
      cl: "classify cfg (thread s) kUnknownMethod called (stack s0 caller_sp) (\<lambda>cm. ToDexPc cm caller_pc)
             = Inr (invoke_type, idx)"
      by (rule before_gate_Inr)
    from assms that(2) fl obtain cm where
      cm: "methods (thread s) (((stack s)(0 := GetCalleeSaveMethod rt)) caller_sp) = Some cm" and
      instr: "instr = insns (GetCodeItem cm) (ToDexPc cm caller_pc)"
      by (auto simp: call_site_instruction_def split: option.splits)
    have "methods (thread s) (stack s0 caller_sp) = Some cm"
      using cm by (simp add: s0)
    from classify_unknown [OF cl this] show ?thesis
      by (simp add: instr)
  qed
  have llvm: "switch_instr_code (Opcode instr) = Inr invoke_type"
    if pre: "before_gate_llvm cfg linker called s kUnknownMethod = Inr (called', invoke_type, s1)"
      and "ART_USE_LLVM_COMPILER cfg"
    for called' invoke_type s1
  proof -
    from pre obtain idx where
      cl: "classify cfg (thread s) kUnknownMethod called (fst (GetCurrentMethod (thread s)))
       (\<lambda>cm. snd (GetCurrentMethod (thread s))) = Inr (invoke_type, idx)"
      by (rule before_gate_llvm_Inr)
    from assms that(2) obtain cm where
      cm: "methods (thread s) (fst (GetCurrentMethod (thread s))) = Some cm" and
      instr: "instr = insns (GetCodeItem cm) (snd (GetCurrentMethod (thread s)))"
      by (auto simp: call_site_instruction_def case_prod_beta split: option.splits)
    from classify_unknown [OF cl cm] show ?thesis
      by (simp add: instr)
  qed
  have fatal: "\<exists>a. UnresolvedDirectMethodTrampolineFromCode cfg rt linker called s kUnknownMethod = Inl a"
    if other: "Opcode instr \<notin> {INVOKE_DIRECT, INVOKE_DIRECT_RANGE, INVOKE_STATIC, INVOKE_STATIC_RANGE,
                            INVOKE_SUPER, INVOKE_SUPER_RANGE, INVOKE_VIRTUAL, INVOKE_VIRTUAL_RANGE}"
  proof -
    have sw: "switch_instr_code (Opcode instr) = Inl LogFatal"
      using other by (cases "Opcode instr") simp_all
    show ?thesis
    proof (cases "ART_USE_LLVM_COMPILER cfg")
      case True
      from assms True obtain cm where
        cm: "methods (thread s) (fst (GetCurrentMethod (thread s))) = Some cm" and
        instr: "instr = insns (GetCodeItem cm) (snd (GetCurrentMethod (thread s)))"
        by (auto simp: call_site_instruction_def case_prod_beta split: option.splits)
      from classify_unexpected [OF cm, of "\<lambda>cm. snd (GetCurrentMethod (thread s))" cfg called] sw
      obtain a where "classify cfg (thread s) kUnknownMethod called (fst (GetCurrentMethod (thread s)))
             (\<lambda>cm. snd (GetCurrentMethod (thread s))) = Inl a"
        by (auto simp: instr)
      from llvm_abort_in_classify [OF this] show ?thesis
        using True by (auto simp: UnresolvedDirectMethodTrampolineFromCode_def)
    next
      case False
      from assms False obtain caller_sp regs caller_pc cm where
        fl: "frame_layout cfg rt (stack s) = Inr (caller_sp, regs, caller_pc)" and
        cm: "methods (thread s) (((stack s)(0 := GetCalleeSaveMethod rt)) caller_sp) = Some cm" and
        instr: "instr = insns (GetCodeItem cm) (ToDexPc cm caller_pc)"
        by (auto simp: call_site_instruction_def split: option.splits sum.splits)
      from classify_unexpected [OF cm, of "\<lambda>cm. ToDexPc cm caller_pc" cfg called] sw
      obtain a where "classify cfg (thread s) kUnknownMethod called
           (((stack s)(0 := GetCalleeSaveMethod rt)) caller_sp) (\<lambda>cm. ToDexPc cm caller_pc) = Inl a"
        by (auto simp: instr)
      from oat_abort_in_classify [OF fl this] show ?thesis
        using False by (auto simp: UnresolvedDirectMethodTrampolineFromCode_def)
    qed
  qed
  have decoded: "decoded_invoke_type cfg rt linker called s kUnknownMethod = Some k"
    if "call_site_checked cfg rt called s" and "switch_instr_code (Opcode instr) = Inr k" for k
    using decoded_at_call_site [OF assms that] .
  have direct: "decoded_invoke_type cfg rt linker called s kUnknownMethod = Some kDirect"
    if "call_site_checked cfg rt called s" and "Opcode instr \<in> {INVOKE_DIRECT, INVOKE_DIRECT_RANGE}"
    using that decoded [of kDirect] by auto
  have static: "decoded_invoke_type cfg rt linker called s kUnknownMethod = Some kStatic"
    if "call_site_checked cfg rt called s" and "Opcode instr \<in> {INVOKE_STATIC, INVOKE_STATIC_RANGE}"
    using that decoded [of kStatic] by auto
  have super: "decoded_invoke_type cfg rt linker called s kUnknownMethod = Some kSuper"
    if "call_site_checked cfg rt called s" and "Opcode instr \<in> {INVOKE_SUPER, INVOKE_SUPER_RANGE}"
    using that decoded [of kSuper] by auto
  have virtual: "decoded_invoke_type cfg rt linker called s kUnknownMethod = Some kVirtual"
    if "call_site_checked cfg rt called s" and "Opcode instr \<in> {INVOKE_VIRTUAL, INVOKE_VIRTUAL_RANGE}"
    using that decoded [of kVirtual] by auto
  have log_fatal: "UnresolvedDirectMethodTrampolineFromCode cfg rt linker called s kUnknownMethod
                   = Inl LogFatal"
    if checked: "call_site_checked cfg rt called s"
      and other: "Opcode instr \<notin> {INVOKE_DIRECT, INVOKE_DIRECT_RANGE, INVOKE_STATIC, INVOKE_STATIC_RANGE,
                            INVOKE_SUPER, INVOKE_SUPER_RANGE, INVOKE_VIRTUAL, INVOKE_VIRTUAL_RANGE}"
  proof -
    have "switch_instr_code (Opcode instr) = Inl LogFatal"
      using other by (cases "Opcode instr") simp_all
    then show ?thesis
      by (rule fatal_at_call_site [OF assms checked])
  qed
  have checked_part: "call_site_checked cfg rt called s \<longrightarrow>
            (Opcode instr \<in> {INVOKE_DIRECT, INVOKE_DIRECT_RANGE} \<longrightarrow>
               decoded_invoke_type cfg rt linker called s kUnknownMethod = Some kDirect) \<and>
            (Opcode instr \<in> {INVOKE_STATIC, INVOKE_STATIC_RANGE} \<longrightarrow>
               decoded_invoke_type cfg rt linker called s kUnknownMethod = Some kStatic) \<and>
            (Opcode instr \<in> {INVOKE_SUPER, INVOKE_SUPER_RANGE} \<longrightarrow>
               decoded_invoke_type cfg rt linker called s kUnknownMethod = Some kSuper) \<and>
            (Opcode instr \<in> {INVOKE_VIRTUAL, INVOKE_VIRTUAL_RANGE} \<longrightarrow>
               decoded_invoke_type cfg rt linker called s kUnknownMethod = Some kVirtual) \<and>
            (Opcode instr \<notin> {INVOKE_DIRECT, INVOKE_DIRECT_RANGE, INVOKE_STATIC, INVOKE_STATIC_RANGE,
                               INVOKE_SUPER, INVOKE_SUPER_RANGE, INVOKE_VIRTUAL, INVOKE_VIRTUAL_RANGE} \<longrightarrow>
               UnresolvedDirectMethodTrampolineFromCode cfg rt linker called s kUnknownMethod
                 = Inl LogFatal)"
    using direct static super virtual log_fatal by blast
  have table: "switch_instr_code INVOKE_DIRECT = Inr kDirect \<and>
         switch_instr_code INVOKE_DIRECT_RANGE = Inr kDirect \<and>
         switch_instr_code INVOKE_STATIC = Inr kStatic \<and>
         switch_instr_code INVOKE_STATIC_RANGE = Inr kStatic \<and>
         switch_instr_code INVOKE_SUPER = Inr kSuper \<and>
         switch_instr_code INVOKE_SUPER_RANGE = Inr kSuper \<and>
         switch_instr_code INVOKE_VIRTUAL = Inr kVirtual \<and>
         switch_instr_code INVOKE_VIRTUAL_RANGE = Inr kVirtual"
    by simp
  have carried: "(\<forall>called' invoke_type regs saved s1.
            before_gate cfg rt linker called s kUnknownMethod = Inr (called', invoke_type, regs, saved, s1) \<longrightarrow>
            \<not> ART_USE_LLVM_COMPILER cfg \<longrightarrow>
            switch_instr_code (Opcode instr) = Inr invoke_type) \<and>
         (\<forall>called' invoke_type s1.
            before_gate_llvm cfg linker called s kUnknownMethod = Inr (called', invoke_type, s1) \<longrightarrow>
            ART_USE_LLVM_COMPILER cfg \<longrightarrow>
            switch_instr_code (Opcode instr) = Inr invoke_type)"
    using oat llvm by blast
  show ?thesis
    using checked_part table carried fatal by blast
qed

theorem call_site_decode_witness:
  "decoded_invoke_type (ex_build Arm False False) (ex_runtime 48) (ex_linker NULL 16384) 102
     (ex_state 12 (ex_world NULL Initialized 12288 INVOKE_DIRECT)) kUnknownMethod = Some kDirect
   \<and> decoded_invoke_type (ex_build Arm False False) (ex_runtime 48) (ex_linker NULL 16384) 102
     (ex_state 12 (ex_world NULL Initialized 12288 INVOKE_DIRECT_RANGE)) kUnknownMethod = Some kDirect
   \<and> decoded_invoke_type (ex_build Arm False False) (ex_runtime 48) (ex_linker NULL 16384) 102
     (ex_state 12 (ex_world NULL Initialized 12288 INVOKE_STATIC)) kUnknownMethod = Some kStatic
   \<and> decoded_invoke_type (ex_build Arm False False) (ex_runtime 48) (ex_linker NULL 16384) 102
     (ex_state 12 (ex_world NULL Initialized 12288 INVOKE_STATIC_RANGE)) kUnknownMethod = Some kStatic
   \<and> decoded_invoke_type (ex_build Arm False False) (ex_runtime 48) (ex_linker NULL 16384) 102
     (ex_state 12 (ex_world NULL Initialized 12288 INVOKE_SUPER)) kUnknownMethod = Some kSuper
   \<and> decoded_invoke_type (ex_build Arm False False) (ex_runtime 48) (ex_linker NULL 16384) 102
     (ex_state 12 (ex_world NULL Initialized 12288 INVOKE_SUPER_RANGE)) kUnknownMethod = Some kSuper
   \<and> decoded_invoke_type (ex_build Arm False False) (ex_runtime 48) (ex_linker NULL 16384) 102
     (ex_state 12 (ex_world NULL Initialized 12288 INVOKE_VIRTUAL)) kUnknownMethod = Some kVirtual
   \<and> decoded_invoke_type (ex_build Arm True False) (ex_runtime 48) (ex_linker NULL 16384) 102
     (ex_state 12 (ex_world NULL Initialized 12288 INVOKE_VIRTUAL_RANGE)) kUnknownMethod = Some kVirtual
   \<and> UnresolvedDirectMethodTrampolineFromCode (ex_build Arm False False) (ex_runtime 48)
       (ex_linker NULL 16384) 102 (ex_state 12 (ex_world NULL Initialized 12288 (OTHER_CODE 18)))
       kUnknownMethod = Inl LogFatal
   \<and> UnresolvedDirectMethodTrampolineFromCode (ex_build Arm True False) (ex_runtime 48)
       (ex_linker NULL 16384) 102 (ex_state 12 (ex_world NULL Initialized 12288 (OTHER_CODE 18)))
       kUnknownMethod = Inl LogFatal"
proof -
  let ?arm = "ex_build Arm False False"
  let ?llvm = "ex_build Arm True False"
  have site: "call_site_instruction ?arm (ex_runtime 48)
        (ex_state 12 (ex_world NULL Initialized 12288 opcode)) = Some \<lparr>Opcode = opcode, vB = 5\<rparr>"
    for opcode
    by (simp add: run_defs ex_defs)
  have checked: "call_site_checked ?arm (ex_runtime 48) 102
        (ex_state 12 (ex_world NULL Initialized 12288 opcode))" for opcode
    by (simp add: run_defs ex_defs)
  have site': "call_site_instruction ?llvm (ex_runtime 48)
        (ex_state 12 (ex_world NULL Initialized 12288 opcode)) = Some \<lparr>Opcode = opcode, vB = 5\<rparr>"
    for opcode
    by (simp add: run_defs ex_defs)
  have checked': "call_site_checked ?llvm (ex_runtime 48) 102
        (ex_state 12 (ex_world NULL Initialized 12288 opcode))" for opcode
    by (simp add: run_defs ex_defs)
  have run: "decoded_invoke_type ?arm (ex_runtime 48) (ex_linker NULL 16384) 102
        (ex_state 12 (ex_world NULL Initialized 12288 INVOKE_DIRECT)) kUnknownMethod = Some kDirect
      \<and> decoded_invoke_type ?arm (ex_runtime 48) (ex_linker NULL 16384) 102
        (ex_state 12 (ex_world NULL Initialized 12288 INVOKE_STATIC_RANGE)) kUnknownMethod = Some kStatic
      \<and> decoded_invoke_type ?llvm (ex_runtime 48) (ex_linker NULL 16384) 102
        (ex_state 12 (ex_world NULL Initialized 12288 INVOKE_VIRTUAL_RANGE)) kUnknownMethod = Some kVirtual"
    by (simp add: run_defs ex_defs Let_def)
  note arm = call_site_decode [OF site, of 102 _ "ex_linker NULL 16384"]
  note llvm = call_site_decode [OF site', of 102 _ "ex_linker NULL 16384"]
  show ?thesis
    using run arm [of INVOKE_DIRECT] arm [of INVOKE_DIRECT_RANGE] arm [of INVOKE_STATIC]
      arm [of INVOKE_STATIC_RANGE] arm [of INVOKE_SUPER] arm [of INVOKE_SUPER_RANGE]
      arm [of INVOKE_VIRTUAL] llvm [of INVOKE_VIRTUAL_RANGE]
      arm [of "OTHER_CODE 18"] llvm [of "OTHER_CODE 18"] checked checked'
    by simp
qed

subsection \<open>The class-init gate and the dispatch\<close>

lemma gate_pending:
  assumes "GetException (thread s) \<noteq> NULL"
  shows "class_init_gate cfg linker invoke_type called s = Inr (NULL, s)"
  using assms by (simp add: class_init_gate_def)

lemma gate_initializing:
  assumes "class_init_gate cfg linker invoke_type called s = Inr (code, s')"
    and "\<not> ART_USE_LLVM_COMPILER cfg"
    and "GetException (thread s) = NULL"
    and "methods (thread s) called = Some m"
    and "classes (EnsureInitialized linker (GetDeclaringClass m) (thread s)) (GetDeclaringClass m)
         = Some Initializing"
  shows "thread s' = EnsureInitialized linker (GetDeclaringClass m) (thread s) \<and>
         stack s' = stack s \<and>
         code = (if invoke_type = kStatic then GetOatCodeFor linker called (thread s')
                 else (case methods (thread s') called of None \<Rightarrow> NULL | Some m' \<Rightarrow> GetCode m'))"
  using assms
  by (auto simp: class_init_gate_def and_then_Inr method_at_def class_at_def Let_def
      IsInitialized_def IsInitializing_def method_code_def oat_code_def
      split: option.splits if_splits)

lemma gate_entry_class:
  assumes "class_init_gate cfg linker invoke_type called s = Inr (code, s')"
    and "code \<noteq> NULL"
  shows "\<exists>m st. methods (thread s) called = Some m \<and>
           classes (thread s') (GetDeclaringClass m) = Some st \<and> IsInitializing st"
proof -
  have ex: "GetException (thread s) = NULL"
    using assms by (auto simp: class_init_gate_def split: if_splits)
  then obtain m st where m: "method_at (thread s) called = Inr m"
    and st: "class_at (EnsureInitialized linker (GetDeclaringClass m) (thread s)) (GetDeclaringClass m) = Inr st"
    and rest: "(let s1 = s\<lparr>thread := EnsureInitialized linker (GetDeclaringClass m) (thread s),
                  linker_calls := linker_calls s @ [EnsureInitializedCall (GetDeclaringClass m)]\<rparr>
        in if IsInitialized st then method_code cfg linker called s1
           else if IsInitializing st then
             (if invoke_type = kStatic then Inr (oat_code linker called s1)
              else method_code cfg linker called s1)
           else and_then (DCHECK cfg (Inr (IsErroneous st))) (\<lambda>_. Inr (NULL, s1))) = Inr (code, s')"
    using assms by (auto simp: class_init_gate_def and_then_Inr Let_def)
  define s1 where "s1 = s\<lparr>thread := EnsureInitialized linker (GetDeclaringClass m) (thread s),
                  linker_calls := linker_calls s @ [EnsureInitializedCall (GetDeclaringClass m)]\<rparr>"
  have init: "IsInitializing st"
    using rest assms(2) unfolding Let_def
    by (auto simp: and_then_Inr IsInitialized_def IsInitializing_def split: if_splits)
  have "method_code cfg linker called s1 = Inr (code, s') \<or> oat_code linker called s1 = (code, s')"
    using rest assms(2) unfolding s1_def [symmetric] Let_def
    by (auto simp: and_then_Inr split: if_splits)
  then have "thread s' = thread s1"
    using method_code_keeps [of cfg linker called s1 code s'] by (auto simp: oat_code_def)
  then have "thread s' = EnsureInitialized linker (GetDeclaringClass m) (thread s)"
    by (simp add: s1_def)
  then show ?thesis
    using m st init by (auto simp: method_at_def class_at_def split: option.splits)
qed

lemma dispatch_resolved:
  assumes "dispatch cfg rt regs called code s = Inr (code', s')" and "code \<noteq> NULL"
  shows "code' = code \<and> thread s' = thread s \<and> stack s' = (stack s)(regs := called) \<and>
         (\<not> NDEBUG cfg \<longrightarrow> code \<noteq> GetResolutionStubArray rt kUnknownMethod)"
  using assms
  by (auto simp: dispatch_def expect_resolved_def and_then_Inr DCHECK_def split: if_splits)

lemma dispatch_exception:
  "dispatch cfg rt regs called NULL s =
     Inr (art_deliver_exception_from_code cfg,
          s\<lparr>stack := (stack s)(regs := GetException (thread s)),
            thread := (thread s)\<lparr>GetException := NULL\<rparr>\<rparr>)"
  by (simp add: dispatch_def)

lemma leave_keeps:
  "thread (ScopedJniEnvLocalRefState_leave saved s) = thread s"
  "stack (ScopedJniEnvLocalRefState_leave saved s) = stack s"
  by (simp_all add: ScopedJniEnvLocalRefState_leave_def)

lemma oat_run:
  assumes "UnresolvedDirectMethodTrampolineFromCode_oat cfg rt linker called s type = Inr (code, s')"
    and "before_gate cfg rt linker called s type = Inr (called', invoke_type, regs, saved, s1)"
  obtains code0 s2 sb where
    "class_init_gate cfg linker invoke_type called' s1 = Inr (code0, s2)"
    "dispatch cfg rt regs called' code0 s2 = Inr (code, sb)"
    "s' = ScopedJniEnvLocalRefState_leave saved sb"
proof -
  from assms(1) obtain saved' sb where
    body: "trampoline_body cfg rt linker called s type = Inr (code, saved', sb)" and
    s': "s' = ScopedJniEnvLocalRefState_leave saved' sb"
    by (rule oat_Inr)
  from body obtain called'' invoke_type' regs' s1' code0 s2 where
    "before_gate cfg rt linker called s type = Inr (called'', invoke_type', regs', saved', s1')"
    "class_init_gate cfg linker invoke_type' called'' s1' = Inr (code0, s2)"
    "dispatch cfg rt regs' called'' code0 s2 = Inr (code, sb)"
    by (rule trampoline_body_Inr)
  with assms(2) s' show thesis
    using that [of code0 s2 sb] by simp
qed

text \<open>
  C1 (as amended). When the class of the callee is observed in the initializing state
  after \<^verbatim>\<open>EnsureInitialized\<close> returns, the first variant of the routine returns, for a
  static call, the oat code of the callee as the class linker gives it
  (\<^verbatim>\<open>GetOatCodeFor\<close>), and for any other call the code pointer of the callee, provided
  that entry point is not \<^verbatim>\<open>NULL\<close>. The thread and the heap, and so the state of the class
  and the absence of a pending exception, are left as \<^verbatim>\<open>EnsureInitialized\<close> left them,
  the callee is stored in \<^verbatim>\<open>regs[0]\<close>, and with assertions compiled in the entry point
  is not the resolution stub.
\<close>

theorem initializing_class_entry_point:
  assumes "before_gate cfg rt linker called s type = Inr (called', invoke_type, regs, saved, s1)"
    and "GetException (thread s1) = NULL"
    and "methods (thread s1) called' = Some m"
    and "w = EnsureInitialized linker (GetDeclaringClass m) (thread s1)"
    and "classes w (GetDeclaringClass m) = Some Initializing"
    and "entry = (if invoke_type = kStatic then GetOatCodeFor linker called' w
                  else (case methods w called' of None \<Rightarrow> NULL | Some m' \<Rightarrow> GetCode m'))"
    and "entry \<noteq> NULL"
    and "\<not> ART_USE_LLVM_COMPILER cfg"
    and "UnresolvedDirectMethodTrampolineFromCode cfg rt linker called s type = Inr (code, s')"
  shows "code = entry \<and> thread s' = w \<and> stack s' regs = called' \<and>
         (\<not> NDEBUG cfg \<longrightarrow> code \<noteq> GetResolutionStubArray rt kUnknownMethod)"
proof -
  have "UnresolvedDirectMethodTrampolineFromCode_oat cfg rt linker called s type = Inr (code, s')"
    using assms(8,9) by (simp add: UnresolvedDirectMethodTrampolineFromCode_def)
  from this assms(1) obtain code0 s2 sb where
    gate: "class_init_gate cfg linker invoke_type called' s1 = Inr (code0, s2)" and
    disp: "dispatch cfg rt regs called' code0 s2 = Inr (code, sb)" and
    s': "s' = ScopedJniEnvLocalRefState_leave saved sb"
    by (rule oat_run)
  have g: "thread s2 = w \<and> code0 = entry"
    using gate_initializing [OF gate assms(8) assms(2) assms(3)] assms(4,5,6) by simp
  then have "code0 \<noteq> NULL" using assms(7) by simp
  from dispatch_resolved [OF disp this] g show ?thesis
    by (simp add: s' leave_keeps)
qed

theorem initializing_class_entry_point_witness:
  "returned_code (UnresolvedDirectMethodTrampolineFromCode (ex_build Arm False False) (ex_runtime 48)
     (ex_linker NULL 16384) 100 (ex_state 12 (ex_world NULL Initializing 8200 INVOKE_STATIC))
     kStaticMethod) = Some 16384
   \<and> map_option thread (returned_state (UnresolvedDirectMethodTrampolineFromCode
       (ex_build Arm False False) (ex_runtime 48) (ex_linker NULL 16384) 100
       (ex_state 12 (ex_world NULL Initializing 8200 INVOKE_STATIC)) kStaticMethod))
     = Some (ex_world NULL Initializing 8200 INVOKE_STATIC)
   \<and> returned_code (UnresolvedDirectMethodTrampolineFromCode (ex_build Arm False False) (ex_runtime 48)
     (ex_linker NULL 16384) 102 (ex_state 12 (ex_world NULL Initializing 12288 INVOKE_VIRTUAL))
     kUnknownMethod) = Some 12288"
proof -
  let ?cfg = "ex_build Arm False False"
  let ?linker = "ex_linker NULL 16384"
  let ?w = "ex_world NULL Initializing 8200 INVOKE_STATIC"
  let ?s = "ex_state 12 ?w"
  let ?v = "ex_world NULL Initializing 12288 INVOKE_VIRTUAL"
  let ?t = "ex_state 12 ?v"
  have llvm: "\<not> ART_USE_LLVM_COMPILER ?cfg" by (simp add: ex_build_def)
  have "\<exists>s1. before_gate ?cfg (ex_runtime 48) ?linker 100 ?s kStaticMethod = Inr (100, kStatic, 1, 0, s1)
           \<and> thread s1 = ?w"
    by (simp add: run_defs ex_defs Let_def)
  then obtain s1 where
    pre: "before_gate ?cfg (ex_runtime 48) ?linker 100 ?s kStaticMethod = Inr (100, kStatic, 1, 0, s1)"
    and th: "thread s1 = ?w" by blast
  have "\<exists>code s'. UnresolvedDirectMethodTrampolineFromCode ?cfg (ex_runtime 48) ?linker 100 ?s
          kStaticMethod = Inr (code, s')"
    by (simp add: run_defs ex_defs Let_def)
  then obtain code s' where
    run: "UnresolvedDirectMethodTrampolineFromCode ?cfg (ex_runtime 48) ?linker 100 ?s
          kStaticMethod = Inr (code, s')" by blast
  have static: "code = 16384 \<and> thread s' = ?w"
    using initializing_class_entry_point [OF pre _ _ refl _ refl _ llvm run, of "ex_callee 8200"]
    by (simp add: th ex_world_def ex_linker_def ex_callee_def)
  have "\<exists>s1. before_gate ?cfg (ex_runtime 48) ?linker 102 ?t kUnknownMethod = Inr (100, kVirtual, 1, 0, s1)
           \<and> thread s1 = ?v"
    by (simp add: run_defs ex_defs Let_def)
  then obtain t1 where
    pre': "before_gate ?cfg (ex_runtime 48) ?linker 102 ?t kUnknownMethod = Inr (100, kVirtual, 1, 0, t1)"
    and th': "thread t1 = ?v" by blast
  have "\<exists>code s'. UnresolvedDirectMethodTrampolineFromCode ?cfg (ex_runtime 48) ?linker 102 ?t
          kUnknownMethod = Inr (code, s')"
    by (simp add: run_defs ex_defs Let_def)
  then obtain code' t' where
    run': "UnresolvedDirectMethodTrampolineFromCode ?cfg (ex_runtime 48) ?linker 102 ?t
          kUnknownMethod = Inr (code', t')" by blast
  have virtual: "code' = 12288"
    using initializing_class_entry_point [OF pre' _ _ refl _ refl _ llvm run', of "ex_callee 12288"]
    by (simp add: th' ex_world_def ex_linker_def ex_callee_def)
  show ?thesis
    using static virtual run run' by (simp add: returned_code_def returned_state_def)
qed

text \<open>
  C1 as stated fails: for a static call on an initializing class the entry point returned
  is the oat code (16384 here), not the address of any resolution stub, even though the
  code pointer of the callee still is the stub (8200). A class linker that gave the
  stub as oat code would make the debug build abort on the assertion of line 223.
\<close>

theorem retry_to_self_counterexample:
  "classes (EnsureInitialized (ex_linker NULL 16384) 200 (ex_world NULL Initializing 8200 INVOKE_STATIC))
     200 = Some Initializing
   \<and> returned_code (UnresolvedDirectMethodTrampolineFromCode (ex_build Arm False False) (ex_runtime 48)
       (ex_linker NULL 16384) 100 (ex_state 12 (ex_world NULL Initializing 8200 INVOKE_STATIC))
       kStaticMethod) = Some 16384
   \<and> GetResolutionStubArray (ex_runtime 48) kStaticMethod = 8200
   \<and> GetResolutionStubArray (ex_runtime 48) kUnknownMethod = 8208
   \<and> GetResolutionStubArray (ex_runtime 48) kDirectMethod = 8192
   \<and> UnresolvedDirectMethodTrampolineFromCode (ex_build Arm False False) (ex_runtime 48)
       (ex_linker NULL 8208) 100 (ex_state 12 (ex_world NULL Initializing 8200 INVOKE_STATIC))
       kStaticMethod = Inl DCheckFailure"
  by (simp add: run_defs ex_defs Let_def)
lemma oat_exception_outcome:
  assumes "before_gate cfg rt linker called s type = Inr (called', invoke_type, regs, saved, s1)"
    and "class_init_gate cfg linker invoke_type called' s1 = Inr (NULL, s2)"
  shows "UnresolvedDirectMethodTrampolineFromCode_oat cfg rt linker called s type =
         Inr (art_deliver_exception_from_code cfg,
              ScopedJniEnvLocalRefState_leave saved
                (s2\<lparr>stack := (stack s2)(regs := GetException (thread s2)),
                    thread := (thread s2)\<lparr>GetException := NULL\<rparr>\<rparr>))"
  using assms
  by (simp add: UnresolvedDirectMethodTrampolineFromCode_oat_def trampoline_body_def
      and_then_simps dispatch_exception)

lemma gate_erroneous:
  assumes "GetException (thread s) = NULL"
    and "methods (thread s) called = Some m"
    and "\<not> CheckIncompatibleClassChange m invoke_type"
    and "classes (EnsureInitialized linker (GetDeclaringClass m) (thread s)) (GetDeclaringClass m)
         = Some Erroneous"
  shows "\<exists>s'. class_init_gate cfg linker invoke_type called s = Inr (NULL, s') \<and>
              thread s' = EnsureInitialized linker (GetDeclaringClass m) (thread s)"
  using assms
  by (simp add: class_init_gate_def and_then_simps method_at_def class_at_def CHECK_def DCHECK_def
      IsInitialized_def IsInitializing_def IsErroneous_def Let_def)

text \<open>
  C2 (as amended). In the first variant of the routine, whenever the thread carries a
  pending exception once resolution is over, and whenever the class-init gate chooses no
  entry point, as it does for a class that is erroneous after \<^verbatim>\<open>EnsureInitialized\<close>, the
  routine returns the exception-delivery entry point, with the exception object stored
  in \<^verbatim>\<open>regs[0]\<close> and the pending exception of the thread cleared.
\<close>

theorem pending_exception_delivered:
  assumes "\<not> ART_USE_LLVM_COMPILER cfg"
    and "before_gate cfg rt linker called s type = Inr (called', invoke_type, regs, saved, s1)"
  shows "(GetException (thread s1) \<noteq> NULL \<longrightarrow>
          (\<exists>s'. UnresolvedDirectMethodTrampolineFromCode cfg rt linker called s type =
                  Inr (art_deliver_exception_from_code cfg, s') \<and>
                stack s' regs = GetException (thread s1) \<and>
                GetException (thread s') = NULL))
       \<and> (\<forall>s2. class_init_gate cfg linker invoke_type called' s1 = Inr (NULL, s2) \<longrightarrow>
          (\<exists>s'. UnresolvedDirectMethodTrampolineFromCode cfg rt linker called s type =
                  Inr (art_deliver_exception_from_code cfg, s') \<and>
                stack s' regs = GetException (thread s2) \<and>
                GetException (thread s') = NULL))
       \<and> (\<forall>m. GetException (thread s1) = NULL \<and> methods (thread s1) called' = Some m \<and>
               \<not> CheckIncompatibleClassChange m invoke_type \<and>
               classes (EnsureInitialized linker (GetDeclaringClass m) (thread s1))
                 (GetDeclaringClass m) = Some Erroneous \<longrightarrow>
          (\<exists>s'. UnresolvedDirectMethodTrampolineFromCode cfg rt linker called s type =
                  Inr (art_deliver_exception_from_code cfg, s') \<and>
                stack s' regs =
                  GetException (EnsureInitialized linker (GetDeclaringClass m) (thread s1)) \<and>
                GetException (thread s') = NULL))"
proof -
  have general: "\<exists>s'. UnresolvedDirectMethodTrampolineFromCode cfg rt linker called s type =
                  Inr (art_deliver_exception_from_code cfg, s') \<and>
                stack s' regs = GetException (thread s2) \<and>
                GetException (thread s') = NULL"
    if "class_init_gate cfg linker invoke_type called' s1 = Inr (NULL, s2)" for s2
    using oat_exception_outcome [OF assms(2) that] assms(1)
    by (simp add: UnresolvedDirectMethodTrampolineFromCode_def ScopedJniEnvLocalRefState_leave_def)
  have erroneous: "\<exists>s'. UnresolvedDirectMethodTrampolineFromCode cfg rt linker called s type =
                  Inr (art_deliver_exception_from_code cfg, s') \<and>
                stack s' regs =
                  GetException (EnsureInitialized linker (GetDeclaringClass m) (thread s1)) \<and>
                GetException (thread s') = NULL"
    if "GetException (thread s1) = NULL \<and> methods (thread s1) called' = Some m \<and>
        \<not> CheckIncompatibleClassChange m invoke_type \<and>
        classes (EnsureInitialized linker (GetDeclaringClass m) (thread s1))
          (GetDeclaringClass m) = Some Erroneous" for m
  proof -
    from that gate_erroneous [of s1 called' m invoke_type linker cfg] obtain s2 where
      "class_init_gate cfg linker invoke_type called' s1 = Inr (NULL, s2)"
      "thread s2 = EnsureInitialized linker (GetDeclaringClass m) (thread s1)"
      by blast
    with general [of s2] show ?thesis by simp
  qed
  have pending: "GetException (thread s1) \<noteq> NULL \<longrightarrow>
          (\<exists>s'. UnresolvedDirectMethodTrampolineFromCode cfg rt linker called s type =
                  Inr (art_deliver_exception_from_code cfg, s') \<and>
                stack s' regs = GetException (thread s1) \<and>
                GetException (thread s') = NULL)"
    using general [of s1] gate_pending [of s1 cfg linker invoke_type called'] by blast
  show ?thesis
    using pending general erroneous by blast
qed

theorem pending_exception_delivered_witness:
  "returned_code (UnresolvedDirectMethodTrampolineFromCode (ex_build I386 False False) (ex_runtime 32)
     (ex_linker NULL 16384) 102 (ex_state 8 (ex_world NULL Erroneous 12288 INVOKE_VIRTUAL))
     kUnknownMethod) = Some 4096
   \<and> returned_code (UnresolvedDirectMethodTrampolineFromCode (ex_build Arm False False) (ex_runtime 48)
     (ex_linker 777 16384) 102 (ex_state 12 (ex_world NULL Initialized 12288 INVOKE_VIRTUAL))
     kUnknownMethod) = Some 4096
   \<and> map_option (\<lambda>s. (stack s 1, GetException (thread s)))
       (returned_state (UnresolvedDirectMethodTrampolineFromCode (ex_build Arm False False)
          (ex_runtime 48) (ex_linker 777 16384) 102
          (ex_state 12 (ex_world NULL Initialized 12288 INVOKE_VIRTUAL)) kUnknownMethod))
     = Some (777, NULL)"
proof -
  let ?cfg = "ex_build Arm False False"
  let ?linker = "ex_linker 777 16384"
  let ?s = "ex_state 12 (ex_world NULL Initialized 12288 INVOKE_VIRTUAL)"
  have llvm: "\<not> ART_USE_LLVM_COMPILER ?cfg" by (simp add: ex_build_def)
  have "\<exists>s1. before_gate ?cfg (ex_runtime 48) ?linker 102 ?s kUnknownMethod = Inr (NULL, kVirtual, 1, 0, s1)
           \<and> GetException (thread s1) = 777"
    by (simp add: run_defs ex_defs Let_def)
  then obtain s1 where
    pre: "before_gate ?cfg (ex_runtime 48) ?linker 102 ?s kUnknownMethod = Inr (NULL, kVirtual, 1, 0, s1)"
    and exc: "GetException (thread s1) = 777" by blast
  from pending_exception_delivered [OF llvm pre] exc
  obtain s' where "UnresolvedDirectMethodTrampolineFromCode ?cfg (ex_runtime 48) ?linker 102 ?s
      kUnknownMethod = Inr (art_deliver_exception_from_code ?cfg, s')"
    "stack s' 1 = 777" "GetException (thread s') = NULL"
    by auto
  moreover have "returned_code (UnresolvedDirectMethodTrampolineFromCode (ex_build I386 False False)
     (ex_runtime 32) (ex_linker NULL 16384) 102
     (ex_state 8 (ex_world NULL Erroneous 12288 INVOKE_VIRTUAL)) kUnknownMethod) = Some 4096"
    by (simp add: run_defs ex_defs Let_def)
  ultimately show ?thesis
    by (simp add: returned_code_def returned_state_def ex_build_def)
qed

text \<open>
  C2 as stated fails in the LLVM variant: on a resolution failure it returns \<^verbatim>\<open>NULL\<close>,
  not the exception-delivery entry point, stores nothing in the result slot and leaves
  the exception pending.
\<close>

theorem llvm_exception_left_pending_counterexample:
  "returned_code (UnresolvedDirectMethodTrampolineFromCode (ex_build Arm True False) (ex_runtime 48)
     (ex_linker 777 16384) 102 (ex_state 12 (ex_world NULL Initialized 12288 INVOKE_VIRTUAL))
     kUnknownMethod) = Some NULL
   \<and> art_deliver_exception_from_code (ex_build Arm True False) = 4096
   \<and> map_option (\<lambda>s. (stack s 0, GetException (thread s)))
       (returned_state (UnresolvedDirectMethodTrampolineFromCode (ex_build Arm True False)
          (ex_runtime 48) (ex_linker 777 16384) 102
          (ex_state 12 (ex_world NULL Initialized 12288 INVOKE_VIRTUAL)) kUnknownMethod))
     = Some (1000, 777)"
  by (simp add: run_defs ex_defs Let_def)

text \<open>
  C3 (as amended). Whenever the class-init gate of the first variant chooses an entry
  point, the routine returns that entry point, the class the gate examined is at least
  initializing at the return, and, with assertions compiled in, the entry point is not
  the \<^verbatim>\<open>kUnknownMethod\<close> resolution stub.
\<close>

theorem resolved_entry_point:
  assumes "before_gate cfg rt linker called s type = Inr (called', invoke_type, regs, saved, s1)"
    and "class_init_gate cfg linker invoke_type called' s1 = Inr (code0, s2)"
    and "code0 \<noteq> NULL"
    and "UnresolvedDirectMethodTrampolineFromCode_oat cfg rt linker called s type = Inr (code, s')"
  shows "code = code0
       \<and> (\<not> NDEBUG cfg \<longrightarrow> code \<noteq> GetResolutionStubArray rt kUnknownMethod)
       \<and> (\<exists>m st. methods (thread s1) called' = Some m \<and>
                  classes (thread s') (GetDeclaringClass m) = Some st \<and> IsInitializing st)"
proof -
  from assms(4) assms(1) obtain code0' s2' sb where
    gate: "class_init_gate cfg linker invoke_type called' s1 = Inr (code0', s2')" and
    disp: "dispatch cfg rt regs called' code0' s2' = Inr (code, sb)" and
    s': "s' = ScopedJniEnvLocalRefState_leave saved sb"
    by (rule oat_run)
  have same: "code0' = code0" "s2' = s2"
    using gate assms(2) by simp_all
  from dispatch_resolved [OF disp] assms(3) same
  have d: "code = code0" "thread sb = thread s2"
    "\<not> NDEBUG cfg \<longrightarrow> code0 \<noteq> GetResolutionStubArray rt kUnknownMethod"
    by simp_all
  from gate_entry_class [OF assms(2) assms(3)] obtain m st where
    "methods (thread s1) called' = Some m" "classes (thread s2) (GetDeclaringClass m) = Some st"
    "IsInitializing st" by blast
  then show ?thesis
    using d by (auto simp: s' leave_keeps)
qed

theorem resolved_entry_point_witness:
  "returned_code (UnresolvedDirectMethodTrampolineFromCode_oat (ex_build Arm False False) (ex_runtime 48)
     (ex_linker NULL 16384) 102 (ex_state 12 (ex_world NULL Initialized 12288 INVOKE_DIRECT))
     kUnknownMethod) = Some 12288
   \<and> 12288 \<noteq> GetResolutionStubArray (ex_runtime 48) kUnknownMethod
   \<and> UnresolvedDirectMethodTrampolineFromCode_oat (ex_build Arm False False) (ex_runtime 48)
     (ex_linker NULL 16384) 102 (ex_state 12 (ex_world NULL Initialized 8208 INVOKE_DIRECT))
     kUnknownMethod = Inl DCheckFailure"
proof -
  let ?cfg = "ex_build Arm False False"
  let ?linker = "ex_linker NULL 16384"
  let ?s = "ex_state 12 (ex_world NULL Initialized 12288 INVOKE_DIRECT)"
  have "\<exists>s1 s2. before_gate ?cfg (ex_runtime 48) ?linker 102 ?s kUnknownMethod = Inr (100, kDirect, 1, 0, s1)
           \<and> class_init_gate ?cfg ?linker kDirect 100 s1 = Inr (12288, s2)"
    by (simp add: run_defs ex_defs Let_def)
  then obtain s1 s2 where
    pre: "before_gate ?cfg (ex_runtime 48) ?linker 102 ?s kUnknownMethod = Inr (100, kDirect, 1, 0, s1)"
    and gate: "class_init_gate ?cfg ?linker kDirect 100 s1 = Inr (12288, s2)" by blast
  have "\<exists>code s'. UnresolvedDirectMethodTrampolineFromCode_oat ?cfg (ex_runtime 48) ?linker 102 ?s
          kUnknownMethod = Inr (code, s')"
    by (simp add: run_defs ex_defs Let_def)
  then obtain code s' where
    run: "UnresolvedDirectMethodTrampolineFromCode_oat ?cfg (ex_runtime 48) ?linker 102 ?s
          kUnknownMethod = Inr (code, s')" by blast
  have "code = 12288 \<and> code \<noteq> GetResolutionStubArray (ex_runtime 48) kUnknownMethod"
    using resolved_entry_point [OF pre gate _ run] by (simp add: ex_build_def)
  moreover have "UnresolvedDirectMethodTrampolineFromCode_oat ?cfg (ex_runtime 48)
     ?linker 102 (ex_state 12 (ex_world NULL Initialized 8208 INVOKE_DIRECT))
     kUnknownMethod = Inl DCheckFailure"
    by (simp add: run_defs ex_defs Let_def)
  ultimately show ?thesis
    using run by (simp add: returned_code_def)
qed

text \<open>
  C3 as stated fails under \<^verbatim>\<open>NDEBUG\<close>: nothing but the assertion of line 223 keeps the
  stub out, and a callee whose code pointer is the stub has the stub returned.
\<close>

theorem unchecked_stub_counterexample:
  "returned_code (UnresolvedDirectMethodTrampolineFromCode (ex_build Arm False True) (ex_runtime 48)
     (ex_linker NULL 16384) 102 (ex_state 12 (ex_world NULL Initialized 8208 INVOKE_DIRECT))
     kUnknownMethod) = Some 8208
   \<and> GetResolutionStubArray (ex_runtime 48) kUnknownMethod = 8208
   \<and> art_deliver_exception_from_code (ex_build Arm False True) = 4096
   \<and> map_option (\<lambda>s. (stack s 1, GetException (thread s)))
       (returned_state (UnresolvedDirectMethodTrampolineFromCode (ex_build Arm False True)
          (ex_runtime 48) (ex_linker NULL 16384) 102
          (ex_state 12 (ex_world NULL Initialized 8208 INVOKE_DIRECT)) kUnknownMethod))
     = Some (100, NULL)"
  by (simp add: run_defs ex_defs Let_def)

end
